theory Spec2Isabelle
  imports Complex_Main
begin

unbundle bit_operations_syntax

section \<open>Errors raised by the program\<close>

text \<open>
  Every \<^verbatim>\<open>raise\<close>, failed subscript, failed tensor construction and failed
  \<^verbatim>\<open>assert\<close> of the two source files is a value of this type.
\<close>

datatype error =
    IndexError
  | KeyError
  | ValueError string
  | AssertionError
  | TypeError
  | RuntimeError

section \<open>dataset.py\<close>

subsection \<open>The collaborators: tokenizer and raw corpus\<close>

text \<open>
  A tokenizer of the \<^verbatim>\<open>tokenizers\<close> library is used through two operations only:
  \<^verbatim>\<open>encode(text).ids\<close> and \<^verbatim>\<open>token_to_id(name)\<close>, the latter returning
  \<^verbatim>\<open>None\<close> for a token that is not in the vocabulary. Token ids are Python ints; the
  library hands out unsigned 32-bit ids, so their conversion to \<^verbatim>\<open>int64\<close> tensors
  loses nothing and tensors of ids are lists of \<^typ>\<open>int\<close>.
\<close>

record tokenizer =
  encode :: "string \<Rightarrow> int list"
  token_to_id :: "string \<Rightarrow> int option"

text \<open>
  One row of the corpus is a dictionary whose key \<^verbatim>\<open>'translation'\<close> holds a
  dictionary from language code to sentence.
\<close>

type_synonym row = "string \<rightharpoonup> (string \<rightharpoonup> string)"

record BilingualDataset =
  ds :: "row list"
  tokenizer_src :: tokenizer
  tokenizer_tgt :: tokenizer
  src_lang :: string
  tgt_lang :: string
  seq_len :: int
  sos_token :: int
  eos_token :: int
  pad_token :: int

text \<open>
  \<^verbatim>\<open>torch.tensor([x], dtype=torch.int64)\<close> for the result \<^verbatim>\<open>x\<close> of
  \<^verbatim>\<open>token_to_id\<close>: a one-element tensor, or an exception when \<^verbatim>\<open>x\<close> is
  \<^verbatim>\<open>None\<close>.
\<close>

definition tensor_of_id :: "int option \<Rightarrow> error + int" where
  "tensor_of_id x = (case x of None \<Rightarrow> Inl TypeError | Some i \<Rightarrow> Inr i)"

text \<open>\<^verbatim>\<open>BilingualDataset.__init__\<close> (dataset.py, lines 7 to 19).\<close>

definition BilingualDataset_init ::
  "row list \<Rightarrow> tokenizer \<Rightarrow> tokenizer \<Rightarrow> string \<Rightarrow> string \<Rightarrow> int \<Rightarrow> error + BilingualDataset"
where
  "BilingualDataset_init ds0 tokeninzer_src0 tokenizer_tgt0 src_lang0 tgt_lang0 seq_len0 =
     (case tensor_of_id (token_to_id tokenizer_tgt0 ''[SOS]'') of
        Inl e \<Rightarrow> Inl e
      | Inr sos \<Rightarrow>
     (case tensor_of_id (token_to_id tokenizer_tgt0 ''[EOS]'') of
        Inl e \<Rightarrow> Inl e
      | Inr eos \<Rightarrow>
     (case tensor_of_id (token_to_id tokenizer_tgt0 ''[PAD]'') of
        Inl e \<Rightarrow> Inl e
      | Inr pad \<Rightarrow>
          Inr \<lparr> ds = ds0, tokenizer_src = tokeninzer_src0, tokenizer_tgt = tokenizer_tgt0,
                src_lang = src_lang0, tgt_lang = tgt_lang0, seq_len = seq_len0,
                sos_token = sos, eos_token = eos, pad_token = pad \<rparr>)))"

text \<open>\<^verbatim>\<open>BilingualDataset.__len__\<close>.\<close>

definition len_ds :: "BilingualDataset \<Rightarrow> nat" where
  "len_ds self = length (ds self)"

subsection \<open>Tensor operations used by \<^verbatim>\<open>__getitem__\<close>\<close>

text \<open>
  A one-dimensional tensor is a list, a tensor of shape \<open>[1, n]\<close> a list holding one list,
  and so on. \<^verbatim>\<open>x != p\<close> compares every entry of \<^verbatim>\<open>x\<close> with the one-element
  tensor \<^verbatim>\<open>p\<close>; \<^verbatim>\<open>.unsqueeze(0)\<close> adds a leading dimension of size one;
  \<^verbatim>\<open>.int()\<close> turns \<^verbatim>\<open>True\<close> into 1 and \<^verbatim>\<open>False\<close> into 0.
\<close>

definition ne_tensor :: "int list \<Rightarrow> int \<Rightarrow> bool list" where
  "ne_tensor x p = map (\<lambda>v. v \<noteq> p) x"

definition unsqueeze0 :: "'a \<Rightarrow> 'a list" where
  "unsqueeze0 x = [x]"

definition int_of_bool :: "bool \<Rightarrow> int" where
  "int_of_bool b = (if b then 1 else 0)"

definition to_int :: "bool list \<Rightarrow> int list" where
  "to_int x = map int_of_bool x"

text \<open>
  \<^verbatim>\<open>torch.triu(torch.ones((1,size,size)), diagonal=1).type(torch.int)\<close>: entry
  \<open>(0, i, j)\<close> keeps its 1 when \<open>j - i \<ge> 1\<close> and is 0 otherwise.
\<close>

definition triu_ones :: "nat \<Rightarrow> int list list list" where
  "triu_ones sz =
     [map (\<lambda>i. map (\<lambda>j. if int j - int i \<ge> 1 then 1 else 0) [0..<sz]) [0..<sz]]"

text \<open>\<^verbatim>\<open>casual_mask\<close> (dataset.py, lines 80 to 82).\<close>

definition casual_mask :: "nat \<Rightarrow> bool list list list" where
  "casual_mask sz = (let mask = triu_ones sz in map (map (map (\<lambda>v. v = 0))) mask)"

text \<open>
  \<^verbatim>\<open>a & b\<close> for an integer tensor \<^verbatim>\<open>a\<close> of shape \<open>[1, n]\<close> and a boolean tensor
  \<^verbatim>\<open>b\<close> of shape \<open>[1, n, n]\<close>: \<^verbatim>\<open>a\<close> is broadcast along the rows of \<^verbatim>\<open>b\<close>,
  the booleans are promoted to integers and the result is the bitwise conjunction, of
  shape \<open>[1, n, n]\<close>. The second equation stands for the shapes torch cannot broadcast,
  which \<^verbatim>\<open>__getitem__\<close> never produces.
\<close>

fun and_broadcast :: "int list list \<Rightarrow> bool list list list \<Rightarrow> int list list list" where
  "and_broadcast [a] b = map (map (\<lambda>r. map2 (\<lambda>x y. x AND int_of_bool y) a r)) b"
| "and_broadcast _ b = []"

text \<open>
  \<^verbatim>\<open>xs[i]\<close> on a Python sequence: positions \<open>0 .. len - 1\<close> from the front,
  \<open>-len .. -1\<close> from the back, \<^verbatim>\<open>IndexError\<close> everywhere else.
\<close>

definition list_getitem :: "'a list \<Rightarrow> int \<Rightarrow> error + 'a" where
  "list_getitem xs i =
     (if 0 \<le> i \<and> i < int (length xs) then Inr (xs ! nat i)
      else if i < 0 \<and> - int (length xs) \<le> i then Inr (xs ! nat (int (length xs) + i))
      else Inl IndexError)"

text \<open>Python subscripting of a dictionary.\<close>

definition dict_getitem :: "('k \<rightharpoonup> 'v) \<Rightarrow> 'k \<Rightarrow> error + 'v" where
  "dict_getitem d k = (case d k of None \<Rightarrow> Inl KeyError | Some v \<Rightarrow> Inr v)"

subsection \<open>\<^verbatim>\<open>BilingualDataset.__getitem__\<close>\<close>

record item =
  encoder_input :: "int list"
  decoder_input :: "int list"
  encoder_mask :: "int list list list"
  decoder_mask :: "int list list list"
  label :: "int list"
  src_text :: string
  tgt_text :: string

text \<open>
  dataset.py, lines 29 to 78: the part of \<^verbatim>\<open>__getitem__\<close> that follows the reading
  of the two sentences, statement by statement. Both token sequences are produced by
  \<^verbatim>\<open>self.tokenizer_src\<close>, as lines 29 and 30 have it. The three
  \<^verbatim>\<open>assert\<close> statements are branches of their own.
\<close>

definition getitem_encode :: "BilingualDataset \<Rightarrow> string \<Rightarrow> string \<Rightarrow> error + item" where
  "getitem_encode self src_text0 tgt_text0 =
     (let enc_input_token = encode (tokenizer_src self) src_text0;
          dec_input_token = encode (tokenizer_src self) tgt_text0;
          enc_num_padding_tokens = seq_len self - int (length enc_input_token) - 2;
          dec_num_padding_tokens = seq_len self - int (length dec_input_token) - 1
      in if enc_num_padding_tokens < 0 \<or> dec_num_padding_tokens < 0
         then Inl (ValueError ''Sentence to long'')
         else
          (let encoder_input0 =
                 [sos_token self] @ enc_input_token @ [eos_token self]
                 @ replicate (nat enc_num_padding_tokens) (pad_token self);
               decoder_input0 =
                 [sos_token self] @ dec_input_token
                 @ replicate (nat dec_num_padding_tokens) (pad_token self);
               label0 =
                 dec_input_token @ [eos_token self]
                 @ replicate (nat dec_num_padding_tokens) (pad_token self)
           in if int (length encoder_input0) \<noteq> seq_len self then Inl AssertionError
              else if int (length decoder_input0) \<noteq> seq_len self then Inl AssertionError
              else if int (length label0) \<noteq> seq_len self then Inl AssertionError
              else Inr \<lparr> encoder_input = encoder_input0,
                         decoder_input = decoder_input0,
                         encoder_mask =
                           unsqueeze0 (unsqueeze0
                             (to_int (ne_tensor encoder_input0 (pad_token self)))),
                         decoder_mask =
                           and_broadcast
                             (unsqueeze0 (to_int (ne_tensor decoder_input0 (pad_token self))))
                             (casual_mask (length decoder_input0)),
                         label = label0,
                         src_text = src_text0,
                         tgt_text = tgt_text0 \<rparr>))"

text \<open>
  dataset.py, lines 24 to 27, followed by the part above: the row is read from the
  corpus and the two sentences from its \<^verbatim>\<open>'translation'\<close> entry.
\<close>

definition getitem :: "BilingualDataset \<Rightarrow> int \<Rightarrow> error + item" where
  "getitem self idx =
     (case list_getitem (ds self) idx of Inl e \<Rightarrow> Inl e | Inr src_target_pair \<Rightarrow>
     (case dict_getitem src_target_pair ''translation'' of Inl e \<Rightarrow> Inl e | Inr tr \<Rightarrow>
     (case dict_getitem tr (src_lang self) of Inl e \<Rightarrow> Inl e | Inr src_text0 \<Rightarrow>
     (case dict_getitem tr (tgt_lang self) of Inl e \<Rightarrow> Inl e | Inr tgt_text0 \<Rightarrow>
        getitem_encode self src_text0 tgt_text0))))"

section \<open>train.py\<close>

subsection \<open>The train and validation split of \<^verbatim>\<open>get_ds\<close>\<close>

text \<open>
  \<^verbatim>\<open>int(0.9 * len(ds_raw))\<close> (train.py, line 41). The product is a double; it is
  modelled by the exact product \<open>9/10 * n\<close>. For the sizes a corpus can have the two
  truncate to the same integer: when 10 divides \<open>n\<close> the double product is the exact
  integer, and otherwise \<open>9/10 * n\<close> is at least 1/10 away from every integer, far
  more than the rounding error. \<^verbatim>\<open>int\<close> truncates towards zero, which for this
  non-negative product is the floor.
\<close>

definition train_ds_size :: "nat \<Rightarrow> nat" where
  "train_ds_size n = nat \<lfloor>(9 / 10 :: real) * real n\<rfloor>"

text \<open>
  \<^verbatim>\<open>torch.utils.data.random_split(dataset, lengths)\<close>: it refuses lengths that do not
  add up to the size of the dataset, draws a random permutation of the indices and cuts
  it into consecutive slices of the requested lengths. The permutation drawn is the
  parameter \<open>perm\<close>; a subset is the list of the indices it holds.
\<close>

fun slices :: "nat list \<Rightarrow> nat list \<Rightarrow> nat list list" where
  "slices perm [] = []"
| "slices perm (l # ls) = take l perm # slices (drop l perm) ls"

definition random_split :: "nat list \<Rightarrow> 'a list \<Rightarrow> nat list \<Rightarrow> error + nat list list" where
  "random_split perm dataset lengths =
     (if sum_list lengths \<noteq> length dataset
      then Inl (ValueError ''Sum of input lengths does not equal the length of the input dataset!'')
      else Inr (slices perm lengths))"

text \<open>train.py, lines 41 to 43.\<close>

definition get_ds_split :: "nat list \<Rightarrow> 'a list \<Rightarrow> error + (nat list \<times> nat list)" where
  "get_ds_split perm ds_raw =
     (let train_ds_size0 = train_ds_size (length ds_raw);
          val_ds_size = length ds_raw - train_ds_size0
      in case random_split perm ds_raw [train_ds_size0, val_ds_size] of
           Inl e \<Rightarrow> Inl e
         | Inr subsets \<Rightarrow>
             (case subsets of
                [train_ds_raw, val_ds_raw] \<Rightarrow> Inr (train_ds_raw, val_ds_raw)
              | _ \<Rightarrow> Inl (ValueError ''not enough values to unpack'')))"

text \<open>
  The size the specification asks for, in its own words: \<open>round(train_fraction * len)\<close>,
  at the fraction 0.9 that the code fixes.
\<close>

definition spec_train_size :: "nat \<Rightarrow> int" where
  "spec_train_size n = round ((9 / 10 :: real) * real n)"

subsection \<open>Checkpoint files\<close>

text \<open>
  The dictionary that \<^verbatim>\<open>torch.save\<close> writes and \<^verbatim>\<open>torch.load\<close> returns, with the
  four keys that \<^verbatim>\<open>train_model\<close> writes and reads. A key that is absent from the
  dictionary is \<open>None\<close>. The state dictionaries of the model and of the optimizer are
  opaque values of the types \<open>'m\<close> and \<open>'o\<close>.
\<close>

record ('m, 'o) checkpoint =
  epoch :: "int option"
  global_step :: "int option"
  model_state_dict :: "'m option"
  optimizer_state_dict :: "'o option"

text \<open>The checkpoint files on disk, by path.\<close>

type_synonym ('m, 'o) files = "string \<rightharpoonup> ('m, 'o) checkpoint"

text \<open>The entries of the configuration that \<^verbatim>\<open>train_model\<close> reads itself.\<close>

record config =
  datasource :: string
  model_folder :: string
  model_basename :: string
  num_epochs :: int
  preload :: "string option"

text \<open>Python's \<^verbatim>\<open>str\<close> of a non-negative integer.\<close>

definition digit_char :: "nat \<Rightarrow> char" where
  "digit_char d = ''0123456789'' ! d"

function str_nat :: "nat \<Rightarrow> string" where
  "str_nat n = (if n < 10 then [digit_char n] else str_nat (n div 10) @ [digit_char (n mod 10)])"
  by pat_completeness auto
termination
  by (relation "measure id") auto

declare str_nat.simps [simp del]

text \<open>
  The format specification \<^verbatim>\<open>{epoch:02d}\<close>: decimal digits, padded with zeros to a
  width of two after the sign, so that \<open>5\<close> prints as \<^verbatim>\<open>05\<close>, \<open>123\<close> as
  \<^verbatim>\<open>123\<close> and \<open>-5\<close> as \<^verbatim>\<open>-5\<close>.
\<close>

definition format_02d :: "int \<Rightarrow> string" where
  "format_02d e =
     (if e < 0 then CHR ''-'' # str_nat (nat (- e))
      else (let s = str_nat (nat e) in replicate (2 - length s) (CHR ''0'') @ s))"

text \<open>
  Reading such a string back; \<open>parse_02d\<close> undoes \<open>format_02d\<close>, which is how the
  file names of different epochs are shown to differ.
\<close>

definition dec_val :: "string \<Rightarrow> nat" where
  "dec_val s = foldl (\<lambda>a c. 10 * a + (of_char c - 48)) 0 s"

definition parse_02d :: "string \<Rightarrow> int" where
  "parse_02d s =
     (case s of [] \<Rightarrow> 0
      | c # cs \<Rightarrow> if c = CHR ''-'' then - int (dec_val cs) else int (dec_val s))"

text \<open>
  train.py, line 76 and line 152. \<^verbatim>\<open>Path(a) / b\<close> is modelled as joining with a
  slash, which is what pathlib does for a non-empty relative directory \<^verbatim>\<open>a\<close> and a
  file name \<^verbatim>\<open>b\<close> without separators.
\<close>

definition model_dir :: "config \<Rightarrow> string" where
  "model_dir config = datasource config @ ''_'' @ model_folder config"

definition ckpt_file :: "config \<Rightarrow> int \<Rightarrow> string" where
  "ckpt_file config epoch0 =
     model_dir config @ ''/'' @ (model_basename config @ format_02d epoch0 @ ''.pt'')"

text \<open>
  The path the specification gives:
  \<^verbatim>\<open>{datasource}_{model_folder}/{model_basename}{epoch:02d}\<close>.
\<close>

definition spec_ckpt_path :: "config \<Rightarrow> int \<Rightarrow> string" where
  "spec_ckpt_path config epoch0 =
     datasource config @ ''_'' @ model_folder config @ ''/''
     @ model_basename config @ format_02d epoch0"

subsection \<open>The state of the training loop and its collaborators\<close>

text \<open>
  What \<^verbatim>\<open>train_model\<close> mutates: the step counter (the variable
  \<^verbatim>\<open>global_step\<close>, here \<open>cur_global_step\<close> to keep it apart from the dictionary
  key), the parameters of the model and of the optimizer (as their state dictionaries)
  and the checkpoint files on disk.
\<close>

record ('m, 'o) train_state =
  cur_global_step :: int
  model :: 'm
  optimizer :: 'o
  files :: "('m, 'o) files"

text \<open>
  What \<^verbatim>\<open>train_model\<close> only calls. \<^verbatim>\<open>latest_weights_file_path\<close> and
  \<^verbatim>\<open>get_weights_file_path\<close> are defined in \<^verbatim>\<open>config.py\<close>; the first looks at
  the disk and may return \<^verbatim>\<open>None\<close>. \<open>initial_model\<close> and \<open>initial_optimizer\<close> are
  the freshly built model and Adam optimizer. \<open>train_dataloader e\<close> is the sequence of
  batches that the shuffling loader yields during epoch \<open>e\<close>, with \<open>Inl\<close> where
  assembling the batch raised (a sentence pair that \<^verbatim>\<open>__getitem__\<close> rejects).
  \<open>train_step\<close> is the body of the batch loop up to the optimizer step: forward pass,
  loss, backward pass, \<^verbatim>\<open>optimizer.step()\<close> and \<^verbatim>\<open>zero_grad()\<close>.
\<close>

record ('m, 'o, 'b) collaborators =
  latest_weights_file_path :: "config \<Rightarrow> ('m, 'o) files \<Rightarrow> string option"
  get_weights_file_path :: "config \<Rightarrow> string \<Rightarrow> string"
  initial_model :: 'm
  initial_optimizer :: 'o
  train_dataloader :: "int \<Rightarrow> (error + 'b) list"
  train_step :: "'m \<Rightarrow> 'o \<Rightarrow> 'b \<Rightarrow> 'm \<times> 'o"

text \<open>A run of the loop either completes or is ended by an exception; both leave a state.\<close>

datatype ('m, 'o) outcome =
    Completed "('m, 'o) train_state"
  | Raised error "('m, 'o) train_state"

fun outcome_state :: "('m, 'o) outcome \<Rightarrow> ('m, 'o) train_state" where
  "outcome_state (Completed st) = st"
| "outcome_state (Raised e st) = st"

subsection \<open>\<^verbatim>\<open>train_model\<close>\<close>

text \<open>
  Truth value of \<^verbatim>\<open>config.get('preload')\<close>: false for a missing entry, \<^verbatim>\<open>None\<close>
  and the empty string.
\<close>

definition truthy :: "string option \<Rightarrow> bool" where
  "truthy v = (case v of None \<Rightarrow> False | Some s \<Rightarrow> s \<noteq> [])"

text \<open>
  train.py, lines 106 to 111: reading the loaded dictionary. Subscripting an absent key
  raises \<^verbatim>\<open>KeyError\<close>; \<^verbatim>\<open>state.get('global_step', 0)\<close> does not.
  \<^verbatim>\<open>load_state_dict\<close> replaces the parameters by the stored ones. The result is the
  initial epoch and the state.
\<close>

definition load_checkpoint ::
  "('m, 'o) checkpoint \<Rightarrow> ('m, 'o) train_state \<Rightarrow> error + (int \<times> ('m, 'o) train_state)"
where
  "load_checkpoint state st =
     (case epoch state of None \<Rightarrow> Inl KeyError | Some e \<Rightarrow>
       (let initial_epoch = e + 1;
            global_step0 = (case global_step state of None \<Rightarrow> 0 | Some g \<Rightarrow> g)
        in case model_state_dict state of None \<Rightarrow> Inl KeyError | Some m \<Rightarrow>
          (case optimizer_state_dict state of None \<Rightarrow> Inl KeyError | Some opt \<Rightarrow>
             Inr (initial_epoch,
                  st\<lparr> cur_global_step := global_step0, model := m, optimizer := opt \<rparr>))))"

text \<open>
  train.py, lines 99 to 102: the path the preload request \<open>p\<close> resolves to.
\<close>

definition resolve_ckpt_path ::
  "('m, 'o, 'b) collaborators \<Rightarrow> config \<Rightarrow> string \<Rightarrow> ('m, 'o) files \<Rightarrow> string option"
where
  "resolve_ckpt_path env config p fs =
     (if p = ''latest''
      then latest_weights_file_path env config fs
      else Some (get_weights_file_path env config p))"

text \<open>
  train.py, lines 98 to 113. A path exists when a checkpoint file is stored under it.
  Without a preload request, or without a file, the defaults of lines 94 and 95 stay.
\<close>

definition preload_checkpoint ::
  "('m, 'o, 'b) collaborators \<Rightarrow> config \<Rightarrow> ('m, 'o) train_state
   \<Rightarrow> error + (int \<times> ('m, 'o) train_state)"
where
  "preload_checkpoint env config st =
     (let initial_epoch = 0 in
      case preload config of
        None \<Rightarrow> Inr (initial_epoch, st)
      | Some p \<Rightarrow>
          if truthy (preload config) then
            (case resolve_ckpt_path env config p (files st) of
               None \<Rightarrow> Inr (initial_epoch, st)
             | Some ckpt_path \<Rightarrow>
                 if ckpt_path \<noteq> [] \<and> ckpt_path \<in> dom (files st)
                 then (case files st ckpt_path of
                         None \<Rightarrow> Inr (initial_epoch, st)
                       | Some state \<Rightarrow> load_checkpoint state st)
                 else Inr (initial_epoch, st))
          else Inr (initial_epoch, st))"

text \<open>
  train.py, lines 125 to 149: the batches of one epoch. Every batch changes the
  parameters and adds one to the step counter; the exception of a batch that cannot be
  assembled ends the run.
\<close>

fun run_batches ::
  "('m, 'o, 'b) collaborators \<Rightarrow> (error + 'b) list \<Rightarrow> ('m, 'o) train_state \<Rightarrow> ('m, 'o) outcome"
where
  "run_batches env [] st = Completed st"
| "run_batches env (Inl e # loop) st = Raised e st"
| "run_batches env (Inr batch # loop) st =
     (case train_step env (model st) (optimizer st) batch of
        (m, opt) \<Rightarrow>
          run_batches env loop
            (st\<lparr> model := m, optimizer := opt, cur_global_step := cur_global_step st + 1 \<rparr>))"

text \<open>train.py, lines 152 to 158: \<^verbatim>\<open>torch.save\<close> creates or replaces the file.\<close>

definition save_checkpoint :: "config \<Rightarrow> int \<Rightarrow> ('m, 'o) train_state \<Rightarrow> ('m, 'o) train_state" where
  "save_checkpoint config epoch0 st =
     st\<lparr> files := (files st)(ckpt_file config epoch0 \<mapsto>
            \<lparr> epoch = Some epoch0,
              global_step = Some (cur_global_step st),
              model_state_dict = Some (model st),
              optimizer_state_dict = Some (optimizer st) \<rparr>) \<rparr>"

text \<open>train.py, lines 122 to 158: the loop over the epochs of \<^verbatim>\<open>range\<close>.\<close>

fun run_epochs ::
  "('m, 'o, 'b) collaborators \<Rightarrow> config \<Rightarrow> int list \<Rightarrow> ('m, 'o) train_state \<Rightarrow> ('m, 'o) outcome"
where
  "run_epochs env config [] st = Completed st"
| "run_epochs env config (epoch0 # rest) st =
     (case run_batches env (train_dataloader env epoch0) st of
        Raised e st' \<Rightarrow> Raised e st'
      | Completed st' \<Rightarrow> run_epochs env config rest (save_checkpoint config epoch0 st'))"

text \<open>\<^verbatim>\<open>range(a, b)\<close> over integers.\<close>

definition py_range :: "int \<Rightarrow> int \<Rightarrow> int list" where
  "py_range a b = [a..b - 1]"

text \<open>
  \<^verbatim>\<open>train_model\<close> (train.py, lines 70 to 160), started on the disk \<open>files0\<close>.
  Reporting to the progress bar and to the metrics writer is left out.
\<close>

definition train_model ::
  "('m, 'o, 'b) collaborators \<Rightarrow> config \<Rightarrow> ('m, 'o) files \<Rightarrow> ('m, 'o) outcome"
where
  "train_model env config files0 =
     (let st0 = \<lparr> cur_global_step = 0, model = initial_model env,
                  optimizer = initial_optimizer env, files = files0 \<rparr>
      in case preload_checkpoint env config st0 of
           Inl e \<Rightarrow> Raised e st0
         | Inr (initial_epoch, st1) \<Rightarrow>
             run_epochs env config (py_range initial_epoch (num_epochs config)) st1)"

subsection \<open>The loss\<close>

text \<open>
  \<^verbatim>\<open>torch.nn.CrossEntropyLoss\<close> as \<^verbatim>\<open>train_model\<close> uses it: targets are class
  indices, there are no class weights and the reduction is the default mean. Its two
  constructor arguments are the fields of the record. Doubles are modelled as reals.
\<close>

record CrossEntropyLoss =
  ignore_index :: int
  label_smoothing :: real

text \<open>\<^verbatim>\<open>log_softmax\<close> of one row of logits.\<close>

definition log_softmax :: "real list \<Rightarrow> real list" where
  "log_softmax x = (let z = ln (sum_list (map exp x)) in map (\<lambda>v. v - z) x)"

text \<open>
  The forward pass of the loss on an input of shape \<open>[N, n_classes]\<close> and a target of
  shape \<open>[N]\<close>, following the library: the negative log-likelihood of the target class
  and the sum of the negative log-probabilities over all classes are both set to zero
  at the positions whose target is \<open>ignore_index\<close>, both are summed and divided by the
  number of the other positions, and the two means are mixed with the weights
  \<open>1 - label_smoothing\<close> and \<open>label_smoothing / n_classes\<close>. A target outside
  \<open>0 .. n_classes - 1\<close> that is not \<open>ignore_index\<close> raises. The result is a scalar,
  or \<open>None\<close> for the \<^verbatim>\<open>nan\<close> that the mean over no position is.
\<close>

definition cross_entropy_forward ::
  "CrossEntropyLoss \<Rightarrow> nat \<Rightarrow> real list list \<Rightarrow> int list \<Rightarrow> error + real option"
where
  "cross_entropy_forward self n_classes input target =
     (if length input \<noteq> length target
      then Inl (ValueError ''Expected input batch_size to match target batch_size'')
      else if list_ex (\<lambda>y. y \<noteq> ignore_index self \<and> (y < 0 \<or> int n_classes \<le> y)) target
      then Inl IndexError
      else
       (let logp = map log_softmax input;
            ignore_mask = map (\<lambda>y. y = ignore_index self) target;
            nll_terms = map2 (\<lambda>lp y. if y = ignore_index self then 0 else - (lp ! nat y))
                          logp target;
            smooth_terms = map2 (\<lambda>lp m. if m then 0 else - sum_list lp) logp ignore_mask;
            true_count = length (filter Not ignore_mask)
        in if true_count = 0 then Inr None
           else
            (let nllloss = sum_list nll_terms / real true_count;
                 smooth_loss = sum_list smooth_terms / real true_count
             in Inr (Some ((1 - label_smoothing self) * nllloss
                           + smooth_loss * (label_smoothing self / real n_classes))))))"

text \<open>
  \<^verbatim>\<open>t.view(-1, v)\<close> on a contiguous tensor of shape \<open>[batch, seq_len, width]\<close>: the
  elements in storage order, cut into rows of \<open>v\<close>; refused when \<open>v\<close> is zero or does
  not divide the number of elements.
\<close>

function chunks :: "nat \<Rightarrow> 'a list \<Rightarrow> 'a list list" where
  "chunks v xs = (if v = 0 \<or> xs = [] then [] else take v xs # chunks v (drop v xs))"
  by pat_completeness auto
termination
  by (relation "measure (\<lambda>(v, xs). length xs)") auto

declare chunks.simps [simp del]

definition view_rows :: "nat \<Rightarrow> real list list list \<Rightarrow> error + real list list" where
  "view_rows v t =
     (let flat = concat (concat t)
      in if v = 0 \<or> length flat mod v \<noteq> 0 then Inl RuntimeError else Inr (chunks v flat))"

text \<open>
  train.py, lines 116 to 119. A tokenizer without a \<^verbatim>\<open>[PAD]\<close> token hands
  \<^verbatim>\<open>None\<close> to the loss, which refuses it.
\<close>

definition loss_fn_init :: "tokenizer \<Rightarrow> error + CrossEntropyLoss" where
  "loss_fn_init tokenizer_tgt0 =
     (case token_to_id tokenizer_tgt0 ''[PAD]'' of
        None \<Rightarrow> Inl TypeError
      | Some pad \<Rightarrow> Inr \<lparr> ignore_index = pad, label_smoothing = 1 / 10 \<rparr>)"

text \<open>
  train.py, lines 136 to 139, with \<open>vocab_size\<close> the value of
  \<^verbatim>\<open>tokenizer_tgt.get_vocab_size()\<close>, \<open>logits\<close> of shape
  \<open>[batch, seq_len, width]\<close> and \<open>labels\<close> of shape \<open>[batch, seq_len]\<close>;
  \<^verbatim>\<open>labels.view(-1)\<close> is the concatenation of the rows.
\<close>

definition batch_loss ::
  "CrossEntropyLoss \<Rightarrow> nat \<Rightarrow> real list list list \<Rightarrow> int list list \<Rightarrow> error + real option"
where
  "batch_loss loss_fn vocab_size logits labels =
     (case view_rows vocab_size logits of
        Inl e \<Rightarrow> Inl e
      | Inr input \<Rightarrow> cross_entropy_forward loss_fn vocab_size input (concat labels))"

text \<open>
  The loss in the words of the specification. The target distribution of a position
  with label \<open>y\<close> among \<open>c\<close> classes is the one-hot distribution softened by the factor
  \<open>eps\<close>; the loss of a position is the cross-entropy between that distribution and the
  softmax of its logits; the loss of a batch is the average of these over the positions
  whose label is not the padding id, the others being left out.
\<close>

definition smoothed_target :: "real \<Rightarrow> nat \<Rightarrow> int \<Rightarrow> real list" where
  "smoothed_target eps c y =
     map (\<lambda>k. (1 - eps) * (if int k = y then 1 else 0) + eps / real c) [0..<c]"

definition cross_entropy :: "real list \<Rightarrow> real list \<Rightarrow> real" where
  "cross_entropy q x = - sum_list (map2 (\<lambda>qk lk. qk * lk) q (log_softmax x))"

definition spec_loss :: "int \<Rightarrow> nat \<Rightarrow> (real list \<times> int) list \<Rightarrow> real option" where
  "spec_loss pad c positions =
     (let kept = filter (\<lambda>(x, y). y \<noteq> pad) positions
      in if kept = [] then None
         else Some (sum_list (map (\<lambda>(x, y). cross_entropy (smoothed_target (1 / 10) c y) x) kept)
                    / real (length kept)))"

section \<open>Concrete corpora, tokenizers and runs\<close>

text \<open>
  Small instances on which the definitions above are evaluated. A tokenizer is given by
  the ids of whole sentences and the ids of its special tokens; a sentence it does not
  know is the single unknown token 0.
\<close>

definition table_tokenizer :: "(string \<rightharpoonup> int list) \<Rightarrow> (string \<rightharpoonup> int) \<Rightarrow> tokenizer" where
  "table_tokenizer sentences ids =
     \<lparr> encode = (\<lambda>text. case sentences text of None \<Rightarrow> [0] | Some xs \<Rightarrow> xs),
       token_to_id = ids \<rparr>"

text \<open>
  The instance of the specification's scenario A: special ids \<open>SOS = 1\<close>, \<open>EOS = 2\<close>,
  \<open>PAD = 0\<close>, a first sentence pair with the token sequences \<open>[4, 5]\<close> and
  \<open>[6, 7, 8]\<close>, and a second pair whose target sentence has five tokens.
\<close>

definition tok_A :: tokenizer where
  "tok_A = table_tokenizer
     [''a b'' \<mapsto> [4, 5], ''c d e'' \<mapsto> [6, 7, 8],
      ''a b c'' \<mapsto> [4, 5, 9], ''c d e f g'' \<mapsto> [6, 7, 8, 10, 11]]
     [''[PAD]'' \<mapsto> 0, ''[SOS]'' \<mapsto> 1, ''[EOS]'' \<mapsto> 2]"

definition corpus_A :: "row list" where
  "corpus_A =
     [[''translation'' \<mapsto> [''en'' \<mapsto> ''a b'', ''it'' \<mapsto> ''c d e'']],
      [''translation'' \<mapsto> [''en'' \<mapsto> ''a b c'', ''it'' \<mapsto> ''c d e f g'']]]"

definition dataset_A :: "int \<Rightarrow> BilingualDataset" where
  "dataset_A n =
     \<lparr> ds = corpus_A, tokenizer_src = tok_A, tokenizer_tgt = tok_A,
       src_lang = ''en'', tgt_lang = ''it'', seq_len = n,
       sos_token = 1, eos_token = 2, pad_token = 0 \<rparr>"

text \<open>
  Two word-level vocabularies with the special ids \<open>[UNK] = 0\<close>, \<open>[PAD] = 1\<close>,
  \<open>[SOS] = 2\<close>, \<open>[EOS] = 3\<close>: the English one knows \<^verbatim>\<open>cat\<close>, the Italian one
  \<^verbatim>\<open>gatto\<close>.
\<close>

definition special_ids :: "string \<rightharpoonup> int" where
  "special_ids = [''[UNK]'' \<mapsto> 0, ''[PAD]'' \<mapsto> 1, ''[SOS]'' \<mapsto> 2, ''[EOS]'' \<mapsto> 3]"

definition tok_en :: tokenizer where
  "tok_en = table_tokenizer [''cat'' \<mapsto> [4]] special_ids"

definition tok_it :: tokenizer where
  "tok_it = table_tokenizer [''gatto'' \<mapsto> [5]] special_ids"

definition corpus_en_it :: "row list" where
  "corpus_en_it = [[''translation'' \<mapsto> [''en'' \<mapsto> ''cat'', ''it'' \<mapsto> ''gatto'']]]"

definition ds_en_it :: BilingualDataset where
  "ds_en_it =
     \<lparr> ds = corpus_en_it, tokenizer_src = tok_en, tokenizer_tgt = tok_it,
       src_lang = ''en'', tgt_lang = ''it'', seq_len = 4,
       sos_token = 2, eos_token = 3, pad_token = 1 \<rparr>"

text \<open>
  A run with numbers for parameters: a batch adds its value to the model parameter and
  one to the optimizer parameter, every epoch has the two batches 1 and 2, and the
  latest checkpoint on disk, when there is one, is that of epoch 3.
\<close>

definition cfg_demo :: config where
  "cfg_demo =
     \<lparr> datasource = ''opus_books'', model_folder = ''weights'', model_basename = ''tmodel_'',
       num_epochs = 5, preload = Some ''latest'' \<rparr>"

definition env_demo :: "(nat, nat, nat) collaborators" where
  "env_demo =
     \<lparr> latest_weights_file_path =
         (\<lambda>c fs. if fs ''opus_books_weights/tmodel_03.pt'' = None then None
                  else Some ''opus_books_weights/tmodel_03.pt''),
       get_weights_file_path = (\<lambda>c p. model_dir c @ ''/'' @ (model_basename c @ p @ ''.pt'')),
       initial_model = 0,
       initial_optimizer = 0,
       train_dataloader = (\<lambda>e. [Inr 1, Inr 2]),
       train_step = (\<lambda>m opt b. (m + b, opt + 1)) \<rparr>"

definition files_demo :: "(nat, nat) files" where
  "files_demo =
     [''opus_books_weights/tmodel_03.pt'' \<mapsto>
        \<lparr> epoch = Some 3, global_step = Some 120,
          model_state_dict = Some 7, optimizer_state_dict = Some 9 \<rparr>]"

definition files_no_step :: "(nat, nat) files" where
  "files_no_step =
     [''opus_books_weights/tmodel_03.pt'' \<mapsto>
        \<lparr> epoch = Some 3, global_step = None,
          model_state_dict = Some 7, optimizer_state_dict = Some 9 \<rparr>]"

definition st_demo :: "(nat, nat) train_state" where
  "st_demo = \<lparr> cur_global_step = 0, model = 0, optimizer = 0, files = Map.empty \<rparr>"

text \<open>
  A source tokenizer that knows \<^verbatim>\<open>cat\<close> and splits \<^verbatim>\<open>gatto\<close> into five pieces,
  as a tokenizer loaded from an existing tokenizer file may, next to the Italian
  word-level target tokenizer.
\<close>

definition tok_en_pieces :: tokenizer where
  "tok_en_pieces = table_tokenizer [''cat'' \<mapsto> [4], ''gatto'' \<mapsto> [6, 7, 8, 8, 9]] special_ids"

definition ds_en_pieces_it :: BilingualDataset where
  "ds_en_pieces_it =
     \<lparr> ds = corpus_en_it, tokenizer_src = tok_en_pieces, tokenizer_tgt = tok_it,
       src_lang = ''en'', tgt_lang = ''it'', seq_len = 4,
       sos_token = 2, eos_token = 3, pad_token = 1 \<rparr>"

text \<open>
  A run of one epoch without a preload request, started on a disk that already holds a
  checkpoint of epoch 0 from an earlier run.
\<close>

definition cfg_fresh :: config where
  "cfg_fresh =
     \<lparr> datasource = ''opus_books'', model_folder = ''weights'', model_basename = ''tmodel_'',
       num_epochs = 1, preload = None \<rparr>"

definition files_prior :: "(nat, nat) files" where
  "files_prior =
     [''opus_books_weights/tmodel_00.pt'' \<mapsto>
        \<lparr> epoch = Some 0, global_step = Some 50,
          model_state_dict = Some 9, optimizer_state_dict = Some 9 \<rparr>]"

section \<open>Properties of \<^verbatim>\<open>__getitem__\<close>\<close>

subsection \<open>The three outcomes of the encoding part\<close>

lemma getitem_encode_Inr:
  assumes le1: "int (length (encode (tokenizer_src self) s)) + 2 \<le> seq_len self"
    and le2: "int (length (encode (tokenizer_src self) t)) + 1 \<le> seq_len self"
  shows "getitem_encode self s t =
     Inr \<lparr> encoder_input =
             [sos_token self] @ encode (tokenizer_src self) s @ [eos_token self]
             @ replicate (nat (seq_len self - int (length (encode (tokenizer_src self) s)) - 2))
                 (pad_token self),
           decoder_input =
             [sos_token self] @ encode (tokenizer_src self) t
             @ replicate (nat (seq_len self - int (length (encode (tokenizer_src self) t)) - 1))
                 (pad_token self),
           encoder_mask =
             [[to_int (ne_tensor
               ([sos_token self] @ encode (tokenizer_src self) s @ [eos_token self]
                @ replicate (nat (seq_len self - int (length (encode (tokenizer_src self) s)) - 2))
                    (pad_token self))
               (pad_token self))]],
           decoder_mask =
             and_broadcast
               (unsqueeze0 (to_int (ne_tensor
                  ([sos_token self] @ encode (tokenizer_src self) t
                   @ replicate (nat (seq_len self - int (length (encode (tokenizer_src self) t)) - 1))
                       (pad_token self))
                  (pad_token self))))
               (casual_mask (nat (seq_len self))),
           label =
             encode (tokenizer_src self) t @ [eos_token self]
             @ replicate (nat (seq_len self - int (length (encode (tokenizer_src self) t)) - 1))
                 (pad_token self),
           src_text = s, tgt_text = t \<rparr>"
proof -
  let ?a = "encode (tokenizer_src self) s" and ?b = "encode (tokenizer_src self) t"
  have a: "\<not> (seq_len self - int (length ?a) - 2 < 0 \<or> seq_len self - int (length ?b) - 1 < 0)"
    using le1 le2 by simp
  have l1: "int (length ([sos_token self] @ ?a @ [eos_token self]
             @ replicate (nat (seq_len self - int (length ?a) - 2)) (pad_token self)))
            = seq_len self"
    using le1 by simp
  have l2: "int (length ([sos_token self] @ ?b
             @ replicate (nat (seq_len self - int (length ?b) - 1)) (pad_token self)))
            = seq_len self"
    using le2 by simp
  have l2': "length ([sos_token self] @ ?b
             @ replicate (nat (seq_len self - int (length ?b) - 1)) (pad_token self))
            = nat (seq_len self)"
    using le2 by simp
  have l3: "int (length (?b @ [eos_token self]
             @ replicate (nat (seq_len self - int (length ?b) - 1)) (pad_token self)))
            = seq_len self"
    using le2 by simp
  have l4: "int (nat (seq_len self)) = seq_len self"
    using le2 by simp
  show ?thesis
    unfolding getitem_encode_def Let_def unsqueeze0_def
    by (simp only: a if_False l1 l2 l2' l3 l4 simp_thms)
qed

lemma getitem_encode_too_long:
  assumes "seq_len self < int (length (encode (tokenizer_src self) s)) + 2
       \<or> seq_len self < int (length (encode (tokenizer_src self) t)) + 1"
  shows "getitem_encode self s t = Inl (ValueError ''Sentence to long'')"
proof -
  have a: "seq_len self - int (length (encode (tokenizer_src self) s)) - 2 < 0
        \<or> seq_len self - int (length (encode (tokenizer_src self) t)) - 1 < 0"
    using assms by auto
  show ?thesis
    unfolding getitem_encode_def Let_def by (simp only: a if_True)
qed

lemma getitem_encode_fits:
  assumes "getitem_encode self s t = Inr ex"
  shows "int (length (encode (tokenizer_src self) s)) + 2 \<le> seq_len self"
    and "int (length (encode (tokenizer_src self) t)) + 1 \<le> seq_len self"
proof -
  have "\<not> (seq_len self < int (length (encode (tokenizer_src self) s)) + 2
       \<or> seq_len self < int (length (encode (tokenizer_src self) t)) + 1)"
    using assms getitem_encode_too_long [of self s t] by auto
  then show "int (length (encode (tokenizer_src self) s)) + 2 \<le> seq_len self"
    and "int (length (encode (tokenizer_src self) t)) + 1 \<le> seq_len self"
    by auto
qed

subsection \<open>Reading the row\<close>

lemma getitem_row:
  assumes "list_getitem (ds self) idx = Inr r" and "r ''translation'' = Some tr"
    and "tr (src_lang self) = Some s" and "tr (tgt_lang self) = Some t"
  shows "getitem self idx = getitem_encode self s t"
  using assms by (simp add: getitem_def dict_getitem_def)

lemma getitem_InrD:
  assumes "getitem self idx = Inr ex"
  shows "\<exists>s t. getitem_encode self s t = Inr ex"
  using assms unfolding getitem_def dict_getitem_def
  by (auto split: sum.splits option.splits)

text \<open>
  \<^verbatim>\<open>__getitem__\<close> reads the three special ids from the fields set by
  \<^verbatim>\<open>__init__\<close> and never consults \<^verbatim>\<open>self.tokenizer_tgt\<close>.
\<close>

lemma getitem_encode_ignores_tokenizer_tgt:
  "getitem_encode (self\<lparr> tokenizer_tgt := tk \<rparr>) s t = getitem_encode self s t"
  by (simp add: getitem_encode_def Let_def)

lemma getitem_ignores_tokenizer_tgt:
  "getitem (self\<lparr> tokenizer_tgt := tk \<rparr>) idx = getitem self idx"
  by (simp add: getitem_def getitem_encode_ignores_tokenizer_tgt
        cong: sum.case_cong)

subsection \<open>Masks\<close>

lemma and_int_of_bool: "int_of_bool p AND int_of_bool q = int_of_bool (p \<and> q)"
  by (simp add: int_of_bool_def)

lemma and_broadcast_casual:
  assumes "length a = n"
  shows "and_broadcast (unsqueeze0 (to_int a)) (casual_mask n)
         = [map (\<lambda>i. map (\<lambda>j. int_of_bool (a ! j \<and> j \<le> i)) [0..<n]) [0..<n]]"
  using assms
  by (auto simp: unsqueeze0_def to_int_def casual_mask_def triu_ones_def and_int_of_bool
        intro!: nth_equalityI)

lemma length_ne_tensor: "length (ne_tensor x p) = length x"
  by (simp add: ne_tensor_def)

lemma nth_to_int_ne:
  "j < length x \<Longrightarrow> to_int (ne_tensor x p) ! j = (if x ! j \<noteq> p then 1 else 0)"
  by (simp add: to_int_def ne_tensor_def int_of_bool_def)

lemma decoder_mask_nth:
  assumes "length x = n" "i < n" "j < n"
  shows "and_broadcast (unsqueeze0 (to_int (ne_tensor x p))) (casual_mask n) ! 0 ! i ! j
         = (if x ! j \<noteq> p \<and> j \<le> i then 1 else 0)"
  using assms
  by (simp add: and_broadcast_casual length_ne_tensor ne_tensor_def int_of_bool_def)

lemma decoder_mask_shape:
  assumes "length x = n"
  shows "length (and_broadcast (unsqueeze0 (to_int (ne_tensor x p))) (casual_mask n)) = 1"
    and "length (and_broadcast (unsqueeze0 (to_int (ne_tensor x p))) (casual_mask n) ! 0) = n"
    and "i < n \<Longrightarrow>
         length (and_broadcast (unsqueeze0 (to_int (ne_tensor x p))) (casual_mask n) ! 0 ! i) = n"
  using assms by (simp_all add: and_broadcast_casual length_ne_tensor)

text \<open>The fields of a returned item, one by one.\<close>

lemma getitem_encode_fields:
  assumes ok: "getitem_encode self s t = Inr ex"
  shows "encoder_input ex =
           [sos_token self] @ encode (tokenizer_src self) s @ [eos_token self]
           @ replicate (nat (seq_len self - int (length (encode (tokenizer_src self) s)) - 2))
               (pad_token self)"
    and "decoder_input ex =
           [sos_token self] @ encode (tokenizer_src self) t
           @ replicate (nat (seq_len self - int (length (encode (tokenizer_src self) t)) - 1))
               (pad_token self)"
    and "label ex =
           encode (tokenizer_src self) t @ [eos_token self]
           @ replicate (nat (seq_len self - int (length (encode (tokenizer_src self) t)) - 1))
               (pad_token self)"
    and "encoder_mask ex = [[to_int (ne_tensor (encoder_input ex) (pad_token self))]]"
    and "decoder_mask ex =
           and_broadcast (unsqueeze0 (to_int (ne_tensor (decoder_input ex) (pad_token self))))
             (casual_mask (nat (seq_len self)))"
    and "src_text ex = s" and "tgt_text ex = t"
    and "length (encoder_input ex) = nat (seq_len self)"
    and "length (decoder_input ex) = nat (seq_len self)"
    and "length (label ex) = nat (seq_len self)"
    and "0 < seq_len self"
proof -
  note fit = getitem_encode_fits [OF ok]
  note ex = Inr_inject [OF trans [OF ok [symmetric] getitem_encode_Inr [OF fit]]]
  show "encoder_input ex =
           [sos_token self] @ encode (tokenizer_src self) s @ [eos_token self]
           @ replicate (nat (seq_len self - int (length (encode (tokenizer_src self) s)) - 2))
               (pad_token self)"
    by (subst ex) simp
  show "decoder_input ex =
           [sos_token self] @ encode (tokenizer_src self) t
           @ replicate (nat (seq_len self - int (length (encode (tokenizer_src self) t)) - 1))
               (pad_token self)"
    by (subst ex) simp
  show "label ex =
           encode (tokenizer_src self) t @ [eos_token self]
           @ replicate (nat (seq_len self - int (length (encode (tokenizer_src self) t)) - 1))
               (pad_token self)"
    by (subst ex) simp
  show "encoder_mask ex = [[to_int (ne_tensor (encoder_input ex) (pad_token self))]]"
    by (subst (1 2) ex) simp
  show "decoder_mask ex =
           and_broadcast (unsqueeze0 (to_int (ne_tensor (decoder_input ex) (pad_token self))))
             (casual_mask (nat (seq_len self)))"
    by (subst (1 2) ex) simp
  show "src_text ex = s" by (subst ex) simp
  show "tgt_text ex = t" by (subst ex) simp
  show "length (encoder_input ex) = nat (seq_len self)"
    using fit by (subst ex) simp
  show "length (decoder_input ex) = nat (seq_len self)"
    using fit by (subst ex) simp
  show "length (label ex) = nat (seq_len self)"
    using fit by (subst ex) simp
  show "0 < seq_len self" using fit by simp
qed

subsection \<open>The concrete datasets\<close>

lemma dataset_A_row0:
  "getitem (dataset_A n) 0 = getitem_encode (dataset_A n) ''a b'' ''c d e''"
  by (simp add: getitem_def dict_getitem_def list_getitem_def dataset_A_def corpus_A_def)

lemma dataset_A_row1:
  "getitem (dataset_A n) 1 = getitem_encode (dataset_A n) ''a b c'' ''c d e f g''"
  by (simp add: getitem_def dict_getitem_def list_getitem_def dataset_A_def corpus_A_def)

lemma dataset_A_tokens:
  "encode (tokenizer_src (dataset_A n)) ''a b'' = [4, 5]"
  "encode (tokenizer_src (dataset_A n)) ''c d e'' = [6, 7, 8]"
  "encode (tokenizer_src (dataset_A n)) ''a b c'' = [4, 5, 9]"
  "encode (tokenizer_src (dataset_A n)) ''c d e f g'' = [6, 7, 8, 10, 11]"
  by (simp_all add: dataset_A_def tok_A_def table_tokenizer_def)

lemma dataset_A_fields:
  "seq_len (dataset_A n) = n" "sos_token (dataset_A n) = 1"
  "eos_token (dataset_A n) = 2" "pad_token (dataset_A n) = 0"
  "ds (dataset_A n) = corpus_A" "src_lang (dataset_A n) = ''en''"
  "tgt_lang (dataset_A n) = ''it''"
  by (simp_all add: dataset_A_def)

lemma getitem_ds_en_it:
  "getitem ds_en_it 0 =
     Inr \<lparr> encoder_input = [2, 4, 3, 1], decoder_input = [2, 0, 1, 1],
           encoder_mask = [[[1, 1, 1, 0]]],
           decoder_mask = [[[1, 0, 0, 0], [1, 1, 0, 0], [1, 1, 0, 0], [1, 1, 0, 0]]],
           label = [0, 3, 1, 1], src_text = ''cat'', tgt_text = ''gatto'' \<rparr>"
  by (simp add: getitem_def getitem_encode_def ds_en_it_def corpus_en_it_def list_getitem_def
      dict_getitem_def tok_en_def table_tokenizer_def Let_def unsqueeze0_def
      to_int_def ne_tensor_def casual_mask_def triu_ones_def int_of_bool_def upt_rec
      numeral_eq_Suc)

lemma init_ds_en_it:
  "BilingualDataset_init corpus_en_it tok_en tok_it ''en'' ''it'' 4 = Inr ds_en_it"
  by (simp add: BilingualDataset_init_def tensor_of_id_def tok_it_def table_tokenizer_def
      special_ids_def ds_en_it_def)

subsection \<open>Which tokenizer reads the target sentence\<close>

text \<open>
  C1. The specification has the target sentence tokenized with the target vocabulary.
  Line 30 of dataset.py passes it to \<^verbatim>\<open>self.tokenizer_src\<close>. On the pair
  (\<^verbatim>\<open>cat\<close>, \<^verbatim>\<open>gatto\<close>) with an English source and an Italian target tokenizer
  the decoder input and the label hold the unknown token 0 of the English vocabulary
  where the Italian tokenizer gives 5.
\<close>

theorem tgt_text_tokenized_by_tokenizer_src:
  "getitem ds_en_it 0 =
     Inr \<lparr> encoder_input = [2, 4, 3, 1], decoder_input = [2, 0, 1, 1],
           encoder_mask = [[[1, 1, 1, 0]]],
           decoder_mask = [[[1, 0, 0, 0], [1, 1, 0, 0], [1, 1, 0, 0], [1, 1, 0, 0]]],
           label = [0, 3, 1, 1], src_text = ''cat'', tgt_text = ''gatto'' \<rparr>
   \<and> encode (tokenizer_tgt ds_en_it) ''gatto'' = [5]
   \<and> encode (tokenizer_src ds_en_it) ''gatto'' = [0]"
  by (simp add: getitem_ds_en_it) (simp add: ds_en_it_def tok_en_def tok_it_def table_tokenizer_def)

subsection \<open>Layout of the three sequences\<close>

text \<open>
  The layout of the sequences the code builds. For a row that holds both sentences,
  with \<open>src_tokens\<close> and \<open>tgt_tokens\<close> the token sequences that lines 29 and 30
  compute, both with the source tokenizer: when \<open>len(src_tokens) + 2 \<le> seq_len\<close> and
  \<open>len(tgt_tokens) + 1 \<le> seq_len\<close>, the item is returned with
  \<open>encoder_input = [SOS] ++ src_tokens ++ [EOS] ++ PAD\<times>k1\<close>,
  \<open>decoder_input = [SOS] ++ tgt_tokens ++ PAD\<times>k2\<close> and
  \<open>label = tgt_tokens ++ [EOS] ++ PAD\<times>k2\<close>, each of length \<open>seq_len\<close>.
\<close>

lemma encode_layout:
  assumes row: "list_getitem (ds self) idx = Inr r" "r ''translation'' = Some tr"
      "tr (src_lang self) = Some s" "tr (tgt_lang self) = Some t"
    and tok: "src_tokens = encode (tokenizer_src self) s"
      "tgt_tokens = encode (tokenizer_src self) t"
    and fit: "int (length src_tokens) + 2 \<le> seq_len self"
      "int (length tgt_tokens) + 1 \<le> seq_len self"
    and pad: "k1 = nat (seq_len self - int (length src_tokens) - 2)"
      "k2 = nat (seq_len self - int (length tgt_tokens) - 1)"
  shows "\<exists>ex. getitem self idx = Inr ex
     \<and> encoder_input ex =
         [sos_token self] @ src_tokens @ [eos_token self] @ replicate k1 (pad_token self)
     \<and> decoder_input ex = [sos_token self] @ tgt_tokens @ replicate k2 (pad_token self)
     \<and> label ex = tgt_tokens @ [eos_token self] @ replicate k2 (pad_token self)
     \<and> int (length (encoder_input ex)) = seq_len self
     \<and> int (length (decoder_input ex)) = seq_len self
     \<and> int (length (label ex)) = seq_len self"
proof -
  have "getitem self idx = getitem_encode self s t"
    using row by (rule getitem_row)
  moreover obtain ex where ex: "getitem_encode self s t = Inr ex"
    using getitem_encode_Inr [OF fit [unfolded tok]] by blast
  moreover note f = getitem_encode_fields [OF ex]
  ultimately show ?thesis
    using f(1,2,3,8,9,10,11) by (simp add: tok pad)
qed

lemma encode_layout_scenario_A:
  "\<exists>ex. getitem (dataset_A 10) 0 = Inr ex
     \<and> encoder_input ex = [1, 4, 5, 2, 0, 0, 0, 0, 0, 0]
     \<and> decoder_input ex = [1, 6, 7, 8, 0, 0, 0, 0, 0, 0]
     \<and> label ex = [6, 7, 8, 2, 0, 0, 0, 0, 0, 0]
     \<and> length (encoder_input ex) = 10 \<and> length (decoder_input ex) = 10
     \<and> length (label ex) = 10"
proof -
  have row: "list_getitem (ds (dataset_A 10)) 0 = Inr (corpus_A ! 0)"
      "(corpus_A ! 0) ''translation'' = Some [''en'' \<mapsto> ''a b'', ''it'' \<mapsto> ''c d e'']"
      "[''en'' \<mapsto> ''a b'', ''it'' \<mapsto> ''c d e''] (src_lang (dataset_A 10)) = Some ''a b''"
      "[''en'' \<mapsto> ''a b'', ''it'' \<mapsto> ''c d e''] (tgt_lang (dataset_A 10)) = Some ''c d e''"
    by (simp_all add: list_getitem_def dataset_A_fields corpus_A_def)
  have tok: "[4, 5] = encode (tokenizer_src (dataset_A 10)) ''a b''"
      "[6, 7, 8] = encode (tokenizer_src (dataset_A 10)) ''c d e''"
    by (simp_all add: dataset_A_tokens)
  have fit: "int (length [4, 5 :: int]) + 2 \<le> seq_len (dataset_A 10)"
      "int (length [6, 7, 8 :: int]) + 1 \<le> seq_len (dataset_A 10)"
    by (simp_all add: dataset_A_fields)
  have pad: "6 = nat (seq_len (dataset_A 10) - int (length [4, 5 :: int]) - 2)"
      "6 = nat (seq_len (dataset_A 10) - int (length [6, 7, 8 :: int]) - 1)"
    by (simp_all add: dataset_A_fields)
  show ?thesis
    using encode_layout [OF row tok fit pad]
    by (simp add: dataset_A_fields numeral_eq_Suc)
qed

text \<open>
  C2. The specification lays out the decoder input and the label around the tokens of
  the target sentence in the target vocabulary. On the pair (\<^verbatim>\<open>cat\<close>,
  \<^verbatim>\<open>gatto\<close>) with \<open>seq_len = 4\<close> both budgets of the claim hold, the encoder
  input is as claimed, and the claimed decoder input and label are \<open>[2, 5, 1, 1]\<close> and
  \<open>[5, 3, 1, 1]\<close>; the code returns \<open>[2, 0, 1, 1]\<close> and \<open>[0, 3, 1, 1]\<close>, built
  from the tokens that line 30 takes from the source tokenizer.
\<close>

theorem layout_differs_for_target_tokens:
  "int (length (encode (tokenizer_src ds_en_it) ''cat'')) + 2 \<le> seq_len ds_en_it
   \<and> int (length (encode (tokenizer_tgt ds_en_it) ''gatto'')) + 1 \<le> seq_len ds_en_it
   \<and> getitem ds_en_it 0 =
     Inr \<lparr> encoder_input = [2, 4, 3, 1], decoder_input = [2, 0, 1, 1],
           encoder_mask = [[[1, 1, 1, 0]]],
           decoder_mask = [[[1, 0, 0, 0], [1, 1, 0, 0], [1, 1, 0, 0], [1, 1, 0, 0]]],
           label = [0, 3, 1, 1], src_text = ''cat'', tgt_text = ''gatto'' \<rparr>
   \<and> [sos_token ds_en_it] @ encode (tokenizer_src ds_en_it) ''cat'' @ [eos_token ds_en_it]
       @ replicate 1 (pad_token ds_en_it) = [2, 4, 3, 1]
   \<and> [sos_token ds_en_it] @ encode (tokenizer_tgt ds_en_it) ''gatto''
       @ replicate 2 (pad_token ds_en_it) = [2, 5, 1, 1]
   \<and> encode (tokenizer_tgt ds_en_it) ''gatto'' @ [eos_token ds_en_it]
       @ replicate 2 (pad_token ds_en_it) = [5, 3, 1, 1]"
  by (simp add: getitem_ds_en_it)
     (simp add: ds_en_it_def tok_en_def tok_it_def table_tokenizer_def numeral_2_eq_2)

subsection \<open>Masks\<close>

text \<open>
  C3. For every returned item and all \<open>i, j < seq_len\<close>: entry \<open>[0, 0, j]\<close> of the
  encoder mask is 1 when \<open>encoder_input[j]\<close> differs from the padding id and 0
  otherwise; entry \<open>[0, i, j]\<close> of the decoder mask is 1 when \<open>decoder_input[j]\<close>
  differs from the padding id and \<open>j \<le> i\<close>, and 0 otherwise. The masks have the shapes
  \<open>[1, 1, seq_len]\<close> and \<open>[1, seq_len, seq_len]\<close>.
\<close>

theorem masks:
  assumes ok: "getitem self idx = Inr ex"
    and i: "i < nat (seq_len self)" and j: "j < nat (seq_len self)"
  shows "encoder_mask ex ! 0 ! 0 ! j = (if encoder_input ex ! j \<noteq> pad_token self then 1 else 0)
     \<and> decoder_mask ex ! 0 ! i ! j =
         (if decoder_input ex ! j \<noteq> pad_token self \<and> j \<le> i then 1 else 0)
     \<and> length (encoder_mask ex) = 1 \<and> length (encoder_mask ex ! 0) = 1
     \<and> length (encoder_mask ex ! 0 ! 0) = nat (seq_len self)
     \<and> length (decoder_mask ex) = 1 \<and> length (decoder_mask ex ! 0) = nat (seq_len self)
     \<and> length (decoder_mask ex ! 0 ! i) = nat (seq_len self)"
proof -
  from getitem_InrD [OF ok] obtain s t where enc: "getitem_encode self s t = Inr ex"
    by blast
  note f = getitem_encode_fields [OF enc]
  have c1: "encoder_mask ex ! 0 ! 0 ! j = (if encoder_input ex ! j \<noteq> pad_token self then 1 else 0)"
    using nth_to_int_ne [of j "encoder_input ex" "pad_token self"] j f(8) by (simp add: f(4))
  have c2: "decoder_mask ex ! 0 ! i ! j =
         (if decoder_input ex ! j \<noteq> pad_token self \<and> j \<le> i then 1 else 0)"
    unfolding f(5) using f(9) i j by (rule decoder_mask_nth)
  have c3: "length (encoder_mask ex) = 1 \<and> length (encoder_mask ex ! 0) = 1
     \<and> length (encoder_mask ex ! 0 ! 0) = nat (seq_len self)"
    using f(8) by (simp add: f(4) to_int_def ne_tensor_def)
  have c4: "length (decoder_mask ex) = 1 \<and> length (decoder_mask ex ! 0) = nat (seq_len self)
     \<and> length (decoder_mask ex ! 0 ! i) = nat (seq_len self)"
    unfolding f(5) using decoder_mask_shape [OF f(9)] i by simp
  show ?thesis using c1 c2 c3 c4 by simp
qed

theorem masks_scenario_A:
  "\<exists>ex. getitem (dataset_A 10) 0 = Inr ex
     \<and> encoder_mask ex ! 0 ! 0 ! 3 = 1 \<and> encoder_mask ex ! 0 ! 0 ! 4 = 0
     \<and> decoder_mask ex ! 0 ! 4 ! 3 = 1 \<and> decoder_mask ex ! 0 ! 2 ! 3 = 0
     \<and> decoder_mask ex ! 0 ! 5 ! 4 = 0"
proof -
  have fit: "int (length (encode (tokenizer_src (dataset_A 10)) ''a b'')) + 2 \<le> seq_len (dataset_A 10)"
      "int (length (encode (tokenizer_src (dataset_A 10)) ''c d e'')) + 1 \<le> seq_len (dataset_A 10)"
    by (simp_all add: dataset_A_tokens dataset_A_fields)
  obtain ex where enc: "getitem_encode (dataset_A 10) ''a b'' ''c d e'' = Inr ex"
    using getitem_encode_Inr [OF fit] by blast
  then have ok: "getitem (dataset_A 10) 0 = Inr ex"
    by (simp add: dataset_A_row0)
  note f = getitem_encode_fields [OF enc]
  have e: "encoder_input ex = [1, 4, 5, 2, 0, 0, 0, 0, 0, 0]"
    by (simp add: f(1) dataset_A_tokens dataset_A_fields numeral_eq_Suc)
  have d: "decoder_input ex = [1, 6, 7, 8, 0, 0, 0, 0, 0, 0]"
    by (simp add: f(2) dataset_A_tokens dataset_A_fields numeral_eq_Suc)
  have b: "(2::nat) < nat (seq_len (dataset_A 10))" "(3::nat) < nat (seq_len (dataset_A 10))"
      "(4::nat) < nat (seq_len (dataset_A 10))" "(5::nat) < nat (seq_len (dataset_A 10))"
    by (simp_all add: dataset_A_fields)
  show ?thesis
    using ok masks [OF ok b(3) b(2)] masks [OF ok b(1) b(2)] masks [OF ok b(4) b(3)]
    by (simp add: e d dataset_A_fields)
qed

subsection \<open>Sentences that do not fit\<close>

text \<open>
  When the code raises. For a row that holds both sentences, with \<open>src_tokens\<close> and
  \<open>tgt_tokens\<close> the token sequences that lines 29 and 30 compute, both with the source
  tokenizer: \<^verbatim>\<open>__getitem__\<close> raises its \<^verbatim>\<open>ValueError\<close> exactly when
  \<open>len(src_tokens) + 2 > seq_len\<close> or \<open>len(tgt_tokens) + 1 > seq_len\<close>, and returns an
  item exactly when both fit, equality included.
\<close>

lemma too_long_iff:
  assumes row: "list_getitem (ds self) idx = Inr r" "r ''translation'' = Some tr"
      "tr (src_lang self) = Some s" "tr (tgt_lang self) = Some t"
    and tok: "src_tokens = encode (tokenizer_src self) s"
      "tgt_tokens = encode (tokenizer_src self) t"
  shows "(getitem self idx = Inl (ValueError ''Sentence to long''))
           = (int (length src_tokens) + 2 > seq_len self
              \<or> int (length tgt_tokens) + 1 > seq_len self)
       \<and> (\<exists>ex. getitem self idx = Inr ex)
           = (int (length src_tokens) + 2 \<le> seq_len self
              \<and> int (length tgt_tokens) + 1 \<le> seq_len self)"
proof -
  have g: "getitem self idx = getitem_encode self s t"
    using row by (rule getitem_row)
  show ?thesis
  proof (cases "int (length src_tokens) + 2 > seq_len self
              \<or> int (length tgt_tokens) + 1 > seq_len self")
    case True
    then have "getitem self idx = Inl (ValueError ''Sentence to long'')"
      unfolding tok g by (rule getitem_encode_too_long)
    with True show ?thesis by auto
  next
    case False
    then have fit: "int (length (encode (tokenizer_src self) s)) + 2 \<le> seq_len self"
        "int (length (encode (tokenizer_src self) t)) + 1 \<le> seq_len self"
      unfolding tok by auto
    have "\<exists>ex. getitem self idx = Inr ex"
      unfolding g using getitem_encode_Inr [OF fit] by blast
    with False show ?thesis by auto
  qed
qed

lemma too_long_scenario_B:
  "getitem (dataset_A 5) 1 = Inl (ValueError ''Sentence to long'')
   \<and> (\<exists>ex. getitem (dataset_A 4) 0 = Inr ex)"
proof -
  have row1: "list_getitem (ds (dataset_A 5)) 1 = Inr (corpus_A ! 1)"
      "(corpus_A ! 1) ''translation'' = Some [''en'' \<mapsto> ''a b c'', ''it'' \<mapsto> ''c d e f g'']"
      "[''en'' \<mapsto> ''a b c'', ''it'' \<mapsto> ''c d e f g''] (src_lang (dataset_A 5)) = Some ''a b c''"
      "[''en'' \<mapsto> ''a b c'', ''it'' \<mapsto> ''c d e f g''] (tgt_lang (dataset_A 5)) = Some ''c d e f g''"
    by (simp_all add: list_getitem_def dataset_A_fields corpus_A_def)
  have tok1: "[4, 5, 9] = encode (tokenizer_src (dataset_A 5)) ''a b c''"
      "[6, 7, 8, 10, 11] = encode (tokenizer_src (dataset_A 5)) ''c d e f g''"
    by (simp_all add: dataset_A_tokens)
  have row0: "list_getitem (ds (dataset_A 4)) 0 = Inr (corpus_A ! 0)"
      "(corpus_A ! 0) ''translation'' = Some [''en'' \<mapsto> ''a b'', ''it'' \<mapsto> ''c d e'']"
      "[''en'' \<mapsto> ''a b'', ''it'' \<mapsto> ''c d e''] (src_lang (dataset_A 4)) = Some ''a b''"
      "[''en'' \<mapsto> ''a b'', ''it'' \<mapsto> ''c d e''] (tgt_lang (dataset_A 4)) = Some ''c d e''"
    by (simp_all add: list_getitem_def dataset_A_fields corpus_A_def)
  have tok0: "[4, 5] = encode (tokenizer_src (dataset_A 4)) ''a b''"
      "[6, 7, 8] = encode (tokenizer_src (dataset_A 4)) ''c d e''"
    by (simp_all add: dataset_A_tokens)
  show ?thesis
    using too_long_iff [OF row1 tok1] too_long_iff [OF row0 tok0]
    by (simp add: dataset_A_fields)
qed

text \<open>
  Measured on the tokens of the target vocabulary, the same holds as long as the two
  tokenizers split the target sentence into equally many tokens, which word-level
  tokenizers over one pre-tokenizer do.
\<close>

lemma too_long_iff_same_length:
  assumes row: "list_getitem (ds self) idx = Inr r" "r ''translation'' = Some tr"
      "tr (src_lang self) = Some s" "tr (tgt_lang self) = Some t"
    and same: "length (encode (tokenizer_src self) t) = length (encode (tokenizer_tgt self) t)"
  shows "(getitem self idx = Inl (ValueError ''Sentence to long''))
           = (int (length (encode (tokenizer_src self) s)) + 2 > seq_len self
              \<or> int (length (encode (tokenizer_tgt self) t)) + 1 > seq_len self)"
  using too_long_iff [OF row refl refl] same by simp

lemma ds_en_pieces_it_row0:
  "getitem ds_en_pieces_it 0 = getitem_encode ds_en_pieces_it ''cat'' ''gatto''"
  by (simp add: getitem_def dict_getitem_def list_getitem_def ds_en_pieces_it_def
      corpus_en_it_def)

text \<open>
  C4. The specification has the error raised exactly when the source tokens with two
  special tokens, or the target tokens in the target vocabulary with one, exceed
  \<open>seq_len\<close>. With a source tokenizer that splits \<^verbatim>\<open>gatto\<close> into five pieces and a
  target tokenizer that knows the word, both budgets of the claim hold at
  \<open>seq_len = 4\<close>, and the code raises: line 33 measures the tokens that line 30 takes
  from the source tokenizer.
\<close>

theorem raises_although_target_tokens_fit:
  "getitem ds_en_pieces_it 0 = Inl (ValueError ''Sentence to long'')
   \<and> int (length (encode (tokenizer_src ds_en_pieces_it) ''cat'')) + 2 \<le> seq_len ds_en_pieces_it
   \<and> int (length (encode (tokenizer_tgt ds_en_pieces_it) ''gatto'')) + 1
       \<le> seq_len ds_en_pieces_it
   \<and> length (encode (tokenizer_src ds_en_pieces_it) ''gatto'') = 5"
proof -
  have "seq_len ds_en_pieces_it < int (length (encode (tokenizer_src ds_en_pieces_it) ''cat'')) + 2
      \<or> seq_len ds_en_pieces_it
          < int (length (encode (tokenizer_src ds_en_pieces_it) ''gatto'')) + 1"
    by (simp add: ds_en_pieces_it_def tok_en_pieces_def table_tokenizer_def)
  then have "getitem ds_en_pieces_it 0 = Inl (ValueError ''Sentence to long'')"
    unfolding ds_en_pieces_it_row0 by (rule getitem_encode_too_long)
  then show ?thesis
    by (simp add: ds_en_pieces_it_def tok_en_pieces_def tok_it_def table_tokenizer_def)
qed

subsection \<open>Where the special ids come from\<close>

lemma init_Inr:
  assumes "BilingualDataset_init ds0 tsrc ttgt ls lt n = Inr self"
  shows "token_to_id ttgt ''[SOS]'' = Some (sos_token self)"
    and "token_to_id ttgt ''[EOS]'' = Some (eos_token self)"
    and "token_to_id ttgt ''[PAD]'' = Some (pad_token self)"
    and "tokenizer_src self = tsrc"
  using assms
  by (auto simp: BilingualDataset_init_def tensor_of_id_def split: option.splits)

lemma init_of_ids:
  assumes "token_to_id ttgt ''[SOS]'' = Some sos" "token_to_id ttgt ''[EOS]'' = Some eos"
    "token_to_id ttgt ''[PAD]'' = Some pad"
  shows "BilingualDataset_init ds0 tsrc ttgt ls lt n =
     Inr \<lparr> ds = ds0, tokenizer_src = tsrc, tokenizer_tgt = ttgt,
           src_lang = ls, tgt_lang = lt, seq_len = n,
           sos_token = sos, eos_token = eos, pad_token = pad \<rparr>"
  using assms by (simp add: BilingualDataset_init_def tensor_of_id_def)

text \<open>
  C9. In a dataset built by \<^verbatim>\<open>__init__\<close> the three special ids are those of the
  target tokenizer, whatever the source tokenizer is; every item it returns has its
  encoder input, whose tokens come from the source tokenizer, framed and padded with
  these ids, and its encoder mask computed against the same padding id.
\<close>

theorem special_tokens_from_target:
  assumes init: "BilingualDataset_init ds0 tsrc ttgt ls lt n = Inr self"
  shows "token_to_id ttgt ''[SOS]'' = Some (sos_token self)
     \<and> token_to_id ttgt ''[EOS]'' = Some (eos_token self)
     \<and> token_to_id ttgt ''[PAD]'' = Some (pad_token self)
     \<and> (\<forall>tsrc'. \<exists>self'. BilingualDataset_init ds0 tsrc' ttgt ls lt n = Inr self'
            \<and> sos_token self' = sos_token self \<and> eos_token self' = eos_token self
            \<and> pad_token self' = pad_token self)
     \<and> (\<forall>idx ex. getitem self idx = Inr ex \<longrightarrow>
           (\<exists>k. encoder_input ex =
                  [sos_token self] @ encode tsrc (src_text ex) @ [eos_token self]
                  @ replicate k (pad_token self))
           \<and> encoder_mask ex =
                [[map (\<lambda>v. if v \<noteq> pad_token self then 1 else 0) (encoder_input ex)]])"
proof -
  note ids = init_Inr [OF init]
  have a: "\<forall>tsrc'. \<exists>self'. BilingualDataset_init ds0 tsrc' ttgt ls lt n = Inr self'
            \<and> sos_token self' = sos_token self \<and> eos_token self' = eos_token self
            \<and> pad_token self' = pad_token self"
    using init_of_ids [OF ids(1,2,3)] by simp
  have b: "(\<exists>k. encoder_input ex =
                  [sos_token self] @ encode tsrc (src_text ex) @ [eos_token self]
                  @ replicate k (pad_token self))
           \<and> encoder_mask ex =
                [[map (\<lambda>v. if v \<noteq> pad_token self then 1 else 0) (encoder_input ex)]]"
    if ok: "getitem self idx = Inr ex" for idx ex
  proof -
    from getitem_InrD [OF ok] obtain s t where enc: "getitem_encode self s t = Inr ex"
      by blast
    note f = getitem_encode_fields [OF enc]
    have "\<exists>k. encoder_input ex =
                  [sos_token self] @ encode tsrc (src_text ex) @ [eos_token self]
                  @ replicate k (pad_token self)"
      using f(1) by (simp add: f(6) ids(4))
    moreover have "encoder_mask ex =
                [[map (\<lambda>v. if v \<noteq> pad_token self then 1 else 0) (encoder_input ex)]]"
      by (simp add: f(4) to_int_def ne_tensor_def int_of_bool_def comp_def)
    ultimately show ?thesis by simp
  qed
  show ?thesis using ids(1,2,3) a b by blast
qed

theorem special_tokens_en_it:
  "BilingualDataset_init corpus_en_it tok_en tok_it ''en'' ''it'' 4 = Inr ds_en_it
   \<and> token_to_id tok_it ''[SOS]'' = Some 2 \<and> token_to_id tok_it ''[EOS]'' = Some 3
   \<and> token_to_id tok_it ''[PAD]'' = Some 1
   \<and> (\<exists>ex. getitem ds_en_it 0 = Inr ex
        \<and> encoder_input ex = [2, 4, 3, 1] \<and> encoder_mask ex = [[[1, 1, 1, 0]]])"
  using special_tokens_from_target [OF init_ds_en_it] init_ds_en_it getitem_ds_en_it
  by (simp add: ds_en_it_def)

section \<open>Properties of the split\<close>

lemma train_ds_size_div: "train_ds_size n = 9 * n div 10"
proof -
  have "(9 / 10 :: real) * real n = real_of_int (int (9 * n)) / real_of_int 10"
    by simp
  then have "\<lfloor>(9 / 10 :: real) * real n\<rfloor> = int (9 * n) div 10"
    by (simp only: floor_divide_of_int_eq)
  then show ?thesis
    by (simp add: train_ds_size_def nat_div_distrib)
qed

lemma train_ds_size_le: "train_ds_size n \<le> n"
  by (simp add: train_ds_size_div)

lemma get_ds_split_eq:
  assumes "length perm = length ds_raw"
  shows "get_ds_split perm ds_raw =
           Inr (take (train_ds_size (length ds_raw)) perm,
                drop (train_ds_size (length ds_raw)) perm)"
  using assms train_ds_size_le [of "length ds_raw"]
  by (simp add: get_ds_split_def random_split_def Let_def)

lemma perm_length:
  assumes "distinct perm" "set perm = {0..<n}"
  shows "length perm = n"
  using assms distinct_card [of perm] by simp

text \<open>
  C6, as the code has it. For a permutation \<open>perm\<close> of the indices of the corpus, as
  \<^verbatim>\<open>random_split\<close> draws one, the two subsets are disjoint, together hold every
  index, and have the sizes \<open>int(0.9 * len)\<close>, that is \<open>\<lfloor>9 * len / 10\<rfloor>\<close>, and the
  remainder.
\<close>

theorem split_partition:
  assumes d: "distinct perm" and s: "set perm = {0..<length ds_raw}"
  shows "\<exists>train val. get_ds_split perm ds_raw = Inr (train, val)
           \<and> set train \<inter> set val = {} \<and> set train \<union> set val = {0..<length ds_raw}
           \<and> distinct train \<and> distinct val
           \<and> int (length train) = \<lfloor>(9 / 10 :: real) * real (length ds_raw)\<rfloor>
           \<and> length train = 9 * length ds_raw div 10
           \<and> length val = length ds_raw - length train"
proof -
  let ?k = "train_ds_size (length ds_raw)"
  have len: "length perm = length ds_raw"
    using d s by (rule perm_length)
  have k: "?k \<le> length perm"
    using len train_ds_size_le [of "length ds_raw"] by simp
  have e: "get_ds_split perm ds_raw = Inr (take ?k perm, drop ?k perm)"
    using len by (rule get_ds_split_eq)
  have dis: "set (take ?k perm) \<inter> set (drop ?k perm) = {}"
    using d set_take_disj_set_drop_if_distinct [of perm ?k ?k] by simp
  have un: "set (take ?k perm) \<union> set (drop ?k perm) = {0..<length ds_raw}"
    using s set_append [of "take ?k perm" "drop ?k perm"] by simp
  have fl: "int (length (take ?k perm)) = \<lfloor>(9 / 10 :: real) * real (length ds_raw)\<rfloor>"
    using k by (simp add: train_ds_size_def min_def)
  have l1: "length (take ?k perm) = 9 * length ds_raw div 10"
    using k by (simp add: train_ds_size_div)
  have l2: "length (drop ?k perm) = length ds_raw - length (take ?k perm)"
    using k len by simp
  show ?thesis
    using e dis un d fl l1 l2
    by (intro exI [of _ "take ?k perm"] exI [of _ "drop ?k perm"]) simp
qed

theorem split_partition_three_rows:
  "distinct [2, 0, 1 :: nat] \<and> set [2, 0, 1 :: nat] = {0..<length ''abc''}
   \<and> (\<exists>train val. get_ds_split [2, 0, 1] ''abc'' = Inr (train, val)
           \<and> set train \<inter> set val = {} \<and> set train \<union> set val = {0..<length ''abc''}
           \<and> length train = 2 \<and> length val = 1)"
proof -
  have h1: "distinct [2, 0, 1 :: nat]" by simp
  have h2: "set [2, 0, 1 :: nat] = {0..<length ''abc''}" by auto
  show ?thesis
    using split_partition [OF h1 h2] h1 h2 by auto
qed

text \<open>
  The size is not the rounded product: a corpus of three rows is split into two training
  rows and one validation row, while \<open>round(0.9 * 3) = 3\<close>.
\<close>

theorem split_size_not_round:
  "get_ds_split [2, 0, 1] ''abc'' = Inr ([2, 0], [1])
   \<and> int (length [2, 0 :: nat]) \<noteq> spec_train_size (length ''abc'')"
  by (simp add: get_ds_split_def random_split_def train_ds_size_div spec_train_size_def
      round_def Let_def)

section \<open>Properties of the checkpoint files\<close>

subsection \<open>File names of different epochs differ\<close>

lemma dec_val_snoc: "dec_val (s @ [c]) = 10 * dec_val s + (of_char c - 48)"
  by (simp add: dec_val_def)

lemma digit_cases: "d < 10 \<Longrightarrow> d \<in> {0, 1, 2, 3, 4, 5, 6, 7, 8, 9::nat}"
  by auto

lemma digit_val: "d < 10 \<Longrightarrow> of_char (digit_char d) - 48 = d"
  using digit_cases [of d] by (auto simp: digit_char_def)

lemma digit_char_not_minus: "d < 10 \<Longrightarrow> digit_char d \<noteq> CHR ''-''"
  using digit_cases [of d] by (auto simp: digit_char_def)

lemma dec_val_str_nat: "dec_val (str_nat n) = n"
proof (induction n rule: str_nat.induct)
  case (1 n)
  show ?case
  proof (cases "n < 10")
    case True
    then show ?thesis by (subst str_nat.simps) (simp add: dec_val_def digit_val)
  next
    case False
    with 1 show ?thesis
      by (subst str_nat.simps) (simp add: dec_val_snoc digit_val)
  qed
qed

lemma dec_val_zeros: "dec_val (replicate k (CHR ''0'') @ s) = dec_val s"
proof -
  have "foldl (\<lambda>a c. 10 * a + (of_char c - 48)) (0::nat) (replicate k (CHR ''0'')) = 0"
    by (induction k) simp_all
  then show ?thesis by (simp add: dec_val_def)
qed

lemma str_nat_nonempty: "str_nat n \<noteq> []"
  by (subst str_nat.simps) simp

lemma hd_str_nat: "hd (str_nat n) \<noteq> CHR ''-''"
proof (induction n rule: str_nat.induct)
  case (1 n)
  show ?case
  proof (cases "n < 10")
    case True
    then show ?thesis by (subst str_nat.simps) (simp add: digit_char_not_minus)
  next
    case False
    with 1 show ?thesis
      by (subst str_nat.simps) (simp add: str_nat_nonempty)
  qed
qed

lemma hd_zero_pad: "hd (replicate k (CHR ''0'') @ str_nat n) \<noteq> CHR ''-''"
  by (cases k) (simp_all add: hd_str_nat)

lemma parse_format_02d: "parse_02d (format_02d e) = e"
proof (cases "e < 0")
  case True
  then show ?thesis by (simp add: parse_02d_def format_02d_def dec_val_str_nat)
next
  case False
  let ?s = "replicate (2 - length (str_nat (nat e))) (CHR ''0'') @ str_nat (nat e)"
  obtain c cs where pc: "?s = c # cs"
    using str_nat_nonempty [of "nat e"] by (cases ?s) auto
  have "c \<noteq> CHR ''-''"
    using hd_zero_pad [of "2 - length (str_nat (nat e))" "nat e"] pc by simp
  moreover have "dec_val (c # cs) = nat e"
    using pc dec_val_zeros [of "2 - length (str_nat (nat e))" "str_nat (nat e)"]
    by (simp add: dec_val_str_nat)
  ultimately show ?thesis
    using False pc by (simp add: parse_02d_def format_02d_def Let_def)
qed

lemma format_02d_inj: "format_02d a = format_02d b \<Longrightarrow> a = b"
  by (metis parse_format_02d)

lemma ckpt_file_inj: "ckpt_file config a = ckpt_file config b \<Longrightarrow> a = b"
  by (simp add: ckpt_file_def format_02d_inj)

lemma format_02d_examples:
  "format_02d 0 = ''00''" "format_02d 1 = ''01''" "format_02d 3 = ''03''"
  "format_02d 12 = ''12''" "format_02d 123 = ''123''" "format_02d (- 5) = ''-5''"
  by (simp_all add: format_02d_def str_nat.simps digit_char_def Let_def)

subsection \<open>What the loop does to the files\<close>

lemma run_batches_files: "files (outcome_state (run_batches env loop st)) = files st"
  by (induction env loop st rule: run_batches.induct) (simp_all split: prod.splits)

lemma run_batches_steps:
  "run_batches env loop st = Completed st' \<Longrightarrow>
     cur_global_step st' = cur_global_step st + int (length loop)"
  by (induction env loop st rule: run_batches.induct) (auto split: prod.splits)

lemma run_epochs_append:
  "run_epochs env config (xs @ ys) st =
     (case run_epochs env config xs st of
        Raised e st' \<Rightarrow> Raised e st'
      | Completed st' \<Rightarrow> run_epochs env config ys st')"
  by (induction xs arbitrary: st) (simp_all split: outcome.splits)

lemma save_checkpoint_other:
  "p \<noteq> ckpt_file config e \<Longrightarrow> files (save_checkpoint config e st) p = files st p"
  by (simp add: save_checkpoint_def)

lemma run_epochs_frame:
  "p \<notin> ckpt_file config ` set es \<Longrightarrow>
     files (outcome_state (run_epochs env config es st)) p = files st p"
proof (induction es arbitrary: st)
  case Nil
  then show ?case by simp
next
  case (Cons e es)
  show ?case
  proof (cases "run_batches env (train_dataloader env e) st")
    case (Completed st')
    have "files st' = files st"
      using run_batches_files [of env "train_dataloader env e" st] Completed by simp
    moreover have
      "files (outcome_state (run_epochs env config es (save_checkpoint config e st'))) p
        = files (save_checkpoint config e st') p"
      using Cons by simp
    moreover have "files (save_checkpoint config e st') p = files st' p"
      using Cons.prems by (simp add: save_checkpoint_other)
    ultimately show ?thesis using Completed by simp
  next
    case (Raised err st')
    then show ?thesis
      using run_batches_files [of env "train_dataloader env e" st] by simp
  qed
qed

lemma run_epochs_snoc_saved:
  assumes "run_epochs env config (es @ [e]) st = Completed se"
  shows "files se (ckpt_file config e) =
           Some \<lparr> epoch = Some e, global_step = Some (cur_global_step se),
                  model_state_dict = Some (model se),
                  optimizer_state_dict = Some (optimizer se) \<rparr>"
  using assms
  by (auto simp: run_epochs_append save_checkpoint_def split: outcome.splits)

lemma upto_split3:
  "i \<le> e \<Longrightarrow> e \<le> n \<Longrightarrow> [i..n] = ([i..e - 1] @ [e]) @ [e + 1..n]"
  using upto_split2 [of i e n] upto_rec2 [of i e] by simp

text \<open>
  C7, as the code has it. When the loop over the epochs \<open>i, \<dots>, n - 1\<close> reaches the end
  of epoch \<open>e\<close> in the state \<open>se\<close>, the file
  \<^verbatim>\<open>{datasource}_{model_folder}/{model_basename}{epoch:02d}.pt\<close> holds the record of
  the four entries epoch, step counter, model parameters and optimizer parameters of
  \<open>se\<close>, whatever that path held before, and it still holds exactly that record when
  the run ends, however it ends. No condition guards the write. File names of different
  epochs differ, so saving one epoch leaves the checkpoints of all other epochs alone,
  and a file whose name is not that of an epoch of this run is left as it was.
\<close>

theorem checkpoint_every_epoch:
  assumes run: "run_epochs env config (py_range i (e + 1)) st = Completed se"
    and ie: "i \<le> e" and en: "e < n"
  shows "ckpt_file config e =
           datasource config @ ''_'' @ model_folder config @ ''/''
           @ model_basename config @ format_02d e @ ''.pt''
     \<and> files se (ckpt_file config e) =
           Some \<lparr> epoch = Some e, global_step = Some (cur_global_step se),
                  model_state_dict = Some (model se),
                  optimizer_state_dict = Some (optimizer se) \<rparr>
     \<and> files (outcome_state (run_epochs env config (py_range i n) st)) (ckpt_file config e) =
           files se (ckpt_file config e)
     \<and> (\<forall>e'. e' \<noteq> e \<longrightarrow> ckpt_file config e' \<noteq> ckpt_file config e)
     \<and> (\<forall>p. p \<notin> ckpt_file config ` set (py_range i n) \<longrightarrow>
           files (outcome_state (run_epochs env config (py_range i n) st)) p = files st p)"
proof -
  have r1: "py_range i (e + 1) = [i..e - 1] @ [e]"
    using ie upto_rec2 [of i e] by (simp add: py_range_def)
  have r2: "py_range i n = py_range i (e + 1) @ [e + 1..n - 1]"
    using ie en upto_split3 [of i e "n - 1"] r1 by (simp add: py_range_def)
  have name: "ckpt_file config e =
           datasource config @ ''_'' @ model_folder config @ ''/''
           @ model_basename config @ format_02d e @ ''.pt''"
    by (simp add: ckpt_file_def model_dir_def)
  have saved: "files se (ckpt_file config e) =
           Some \<lparr> epoch = Some e, global_step = Some (cur_global_step se),
                  model_state_dict = Some (model se),
                  optimizer_state_dict = Some (optimizer se) \<rparr>"
    using run unfolding r1 by (rule run_epochs_snoc_saved)
  have notin: "ckpt_file config e \<notin> ckpt_file config ` set [e + 1..n - 1]"
    by (auto dest: ckpt_file_inj)
  have "run_epochs env config (py_range i n) st = run_epochs env config [e + 1..n - 1] se"
    unfolding r2 by (simp add: run_epochs_append run)
  then have kept:
    "files (outcome_state (run_epochs env config (py_range i n) st)) (ckpt_file config e) =
           files se (ckpt_file config e)"
    using run_epochs_frame [OF notin, of env se] by simp
  have inj: "\<forall>e'. e' \<noteq> e \<longrightarrow> ckpt_file config e' \<noteq> ckpt_file config e"
    using ckpt_file_inj by blast
  have frame: "\<forall>p. p \<notin> ckpt_file config ` set (py_range i n) \<longrightarrow>
           files (outcome_state (run_epochs env config (py_range i n) st)) p = files st p"
    using run_epochs_frame by blast
  show ?thesis
    using name saved kept inj frame by blast
qed

subsection \<open>The concrete run\<close>

lemma ckpt_file_demo:
  "ckpt_file cfg_demo 0 = ''opus_books_weights/tmodel_00.pt''"
  "ckpt_file cfg_demo 1 = ''opus_books_weights/tmodel_01.pt''"
  by (simp_all add: ckpt_file_def model_dir_def cfg_demo_def format_02d_examples)

lemma py_range_demo: "py_range 0 1 = [0]" "py_range 0 2 = [0, 1]"
  by (simp_all add: py_range_def upto_rec1)

lemma run_first_epoch_demo:
  "run_epochs env_demo cfg_demo (py_range 0 (0 + 1)) st_demo =
     Completed \<lparr> cur_global_step = 2, model = 3, optimizer = 2,
                 files = [''opus_books_weights/tmodel_00.pt'' \<mapsto>
                    \<lparr> epoch = Some 0, global_step = Some 2,
                      model_state_dict = Some 3, optimizer_state_dict = Some 2 \<rparr>] \<rparr>"
  by (simp add: py_range_demo env_demo_def st_demo_def save_checkpoint_def ckpt_file_demo
      numeral_2_eq_2 numeral_3_eq_3)

theorem checkpoint_first_epoch_demo:
  "files (outcome_state (run_epochs env_demo cfg_demo (py_range 0 2) st_demo))
      ''opus_books_weights/tmodel_00.pt''
     = Some \<lparr> epoch = Some 0, global_step = Some 2,
              model_state_dict = Some 3, optimizer_state_dict = Some 2 \<rparr>
   \<and> files (outcome_state (run_epochs env_demo cfg_demo (py_range 0 2) st_demo))
      ''opus_books_weights/tmodel_07.pt'' = None"
proof -
  have ie: "(0::int) \<le> 0" and en: "(0::int) < 2" by simp_all
  have out: "''opus_books_weights/tmodel_07.pt'' \<notin> ckpt_file cfg_demo ` set (py_range 0 2)"
    by (simp add: py_range_demo ckpt_file_demo)
  show ?thesis
    using checkpoint_every_epoch [OF run_first_epoch_demo ie en] out
    by (simp add: ckpt_file_demo st_demo_def)
qed

text \<open>
  The file is not at the path of the specification: after the first epoch the name with
  the suffix \<^verbatim>\<open>.pt\<close> holds the checkpoint and the name without it holds nothing.
  And a checkpoint that is already on disk under the name of an epoch the run executes
  is overwritten: a run without a preload request replaces the file of epoch 0 that an
  earlier run left.
\<close>

theorem checkpoint_path_suffix_and_overwrite:
  "spec_ckpt_path cfg_demo 0 = ''opus_books_weights/tmodel_00''
   \<and> ckpt_file cfg_demo 0 = ''opus_books_weights/tmodel_00.pt''
   \<and> files (outcome_state (run_epochs env_demo cfg_demo (py_range 0 1) st_demo))
        (spec_ckpt_path cfg_demo 0) = None
   \<and> files (outcome_state (run_epochs env_demo cfg_demo (py_range 0 1) st_demo))
        (ckpt_file cfg_demo 0)
      = Some \<lparr> epoch = Some 0, global_step = Some 2,
               model_state_dict = Some 3, optimizer_state_dict = Some 2 \<rparr>
   \<and> files_prior (ckpt_file cfg_fresh 0)
      = Some \<lparr> epoch = Some 0, global_step = Some 50,
               model_state_dict = Some 9, optimizer_state_dict = Some 9 \<rparr>
   \<and> files (outcome_state (train_model env_demo cfg_fresh files_prior)) (ckpt_file cfg_fresh 0)
      = Some \<lparr> epoch = Some 0, global_step = Some 2,
               model_state_dict = Some 3, optimizer_state_dict = Some 2 \<rparr>"
proof -
  have s: "spec_ckpt_path cfg_demo 0 = ''opus_books_weights/tmodel_00''"
    by (simp add: spec_ckpt_path_def cfg_demo_def format_02d_examples)
  have r: "run_epochs env_demo cfg_demo (py_range 0 1) st_demo =
     Completed \<lparr> cur_global_step = 2, model = 3, optimizer = 2,
                 files = [''opus_books_weights/tmodel_00.pt'' \<mapsto>
                    \<lparr> epoch = Some 0, global_step = Some 2,
                      model_state_dict = Some 3, optimizer_state_dict = Some 2 \<rparr>] \<rparr>"
    using run_first_epoch_demo by simp
  have c: "ckpt_file cfg_fresh 0 = ''opus_books_weights/tmodel_00.pt''"
    by (simp add: ckpt_file_def model_dir_def cfg_fresh_def format_02d_examples)
  have p: "preload_checkpoint env_demo cfg_fresh
             \<lparr> cur_global_step = 0, model = initial_model env_demo,
               optimizer = initial_optimizer env_demo, files = files_prior \<rparr>
           = Inr (0, \<lparr> cur_global_step = 0, model = initial_model env_demo,
               optimizer = initial_optimizer env_demo, files = files_prior \<rparr>)"
    by (simp add: preload_checkpoint_def cfg_fresh_def)
  have n: "py_range 0 (num_epochs cfg_fresh) = [0]"
    by (simp add: cfg_fresh_def py_range_demo)
  have t: "files (outcome_state (train_model env_demo cfg_fresh files_prior))
             ''opus_books_weights/tmodel_00.pt''
      = Some \<lparr> epoch = Some 0, global_step = Some 2,
               model_state_dict = Some 3, optimizer_state_dict = Some 2 \<rparr>"
    by (simp add: train_model_def p n)
       (simp add: env_demo_def save_checkpoint_def c numeral_2_eq_2 numeral_3_eq_3)
  show ?thesis
    by (simp add: s r ckpt_file_demo c t) (simp add: files_prior_def)
qed

section \<open>Properties of resuming\<close>

lemma preload_found:
  assumes "preload config = Some p" "p \<noteq> []"
    and "resolve_ckpt_path env config p (files st) = Some path" "path \<noteq> []"
    and "files st path = Some state"
  shows "preload_checkpoint env config st = load_checkpoint state st"
  using assms by (simp add: preload_checkpoint_def truthy_def Let_def dom_def)

lemma preload_not_found:
  assumes "preload config = Some p"
    and "resolve_ckpt_path env config p (files st) = None
         \<or> (\<exists>path. resolve_ckpt_path env config p (files st) = Some path
                \<and> (path = [] \<or> files st path = None))"
  shows "preload_checkpoint env config st = Inr (0, st)"
  using assms
  by (auto simp: preload_checkpoint_def truthy_def Let_def dom_def split: option.splits)

lemma preload_absent:
  "\<not> truthy (preload config) \<Longrightarrow> preload_checkpoint env config st = Inr (0, st)"
  by (auto simp: preload_checkpoint_def Let_def split: option.splits)

lemma load_checkpoint_complete:
  assumes "epoch state = Some e" "model_state_dict state = Some m"
    "optimizer_state_dict state = Some opt"
  shows "load_checkpoint state st =
     Inr (e + 1, st\<lparr> cur_global_step := (case global_step state of None \<Rightarrow> 0 | Some g \<Rightarrow> g),
                      model := m, optimizer := opt \<rparr>)"
  using assms by (simp add: load_checkpoint_def Let_def)

lemma py_range_first:
  "e \<notin> set (py_range (e + 1) n) \<and> (e + 1 < n \<longrightarrow> hd (py_range (e + 1) n) = e + 1)"
  by (auto simp: py_range_def upto_rec1)

text \<open>
  C5. With a preload request \<open>p\<close>: when the path it resolves to holds a checkpoint with
  the entries epoch \<open>e\<close>, step \<open>g\<close>, model parameters \<open>m\<close> and optimizer parameters
  \<open>opt\<close>, the run is the loop over the epochs \<open>e + 1, \<dots>\<close> started with the step
  counter \<open>g\<close> and the parameters \<open>m\<close> and \<open>opt\<close>; \<open>e\<close> itself is not among the epochs
  run, and \<open>e + 1\<close> is the first one when any is run. When the request resolves to no
  path, to the empty path or to a path without a file, the run is the loop over the
  epochs \<open>0, \<dots>\<close> started with step counter 0 and the fresh parameters, with no error
  from the preloading.
\<close>

theorem resume_from_checkpoint:
  assumes req: "preload config = Some p" "p \<noteq> []"
  shows "(\<forall>path state e g m opt.
            resolve_ckpt_path env config p files0 = Some path \<and> path \<noteq> []
            \<and> files0 path = Some state
            \<and> epoch state = Some e \<and> global_step state = Some g
            \<and> model_state_dict state = Some m \<and> optimizer_state_dict state = Some opt
          \<longrightarrow> train_model env config files0 =
                run_epochs env config (py_range (e + 1) (num_epochs config))
                  \<lparr> cur_global_step = g, model = m, optimizer = opt, files = files0 \<rparr>
              \<and> e \<notin> set (py_range (e + 1) (num_epochs config))
              \<and> (e + 1 < num_epochs config
                   \<longrightarrow> hd (py_range (e + 1) (num_epochs config)) = e + 1))
       \<and> ((resolve_ckpt_path env config p files0 = None
            \<or> (\<exists>path. resolve_ckpt_path env config p files0 = Some path
                   \<and> (path = [] \<or> files0 path = None)))
          \<longrightarrow> train_model env config files0 =
                run_epochs env config (py_range 0 (num_epochs config))
                  \<lparr> cur_global_step = 0, model = initial_model env,
                    optimizer = initial_optimizer env, files = files0 \<rparr>)"
proof (intro conjI allI impI)
  fix path state e g m opt
  assume h: "resolve_ckpt_path env config p files0 = Some path \<and> path \<noteq> []
            \<and> files0 path = Some state
            \<and> epoch state = Some e \<and> global_step state = Some g
            \<and> model_state_dict state = Some m \<and> optimizer_state_dict state = Some opt"
  let ?st0 = "\<lparr> cur_global_step = 0, model = initial_model env,
                  optimizer = initial_optimizer env, files = files0 \<rparr>"
  have "preload_checkpoint env config ?st0 = load_checkpoint state ?st0"
    using req h preload_found [of config p env ?st0 path state] by simp
  also have "\<dots> = Inr (e + 1, ?st0\<lparr> cur_global_step := g, model := m, optimizer := opt \<rparr>)"
    using h by (simp add: load_checkpoint_complete)
  finally show "train_model env config files0 =
                run_epochs env config (py_range (e + 1) (num_epochs config))
                  \<lparr> cur_global_step = g, model = m, optimizer = opt, files = files0 \<rparr>"
    by (simp add: train_model_def)
  show "e \<notin> set (py_range (e + 1) (num_epochs config))"
    using py_range_first by blast
  show "hd (py_range (e + 1) (num_epochs config)) = e + 1" if "e + 1 < num_epochs config"
    using that py_range_first by blast
next
  let ?st0 = "\<lparr> cur_global_step = 0, model = initial_model env,
                  optimizer = initial_optimizer env, files = files0 \<rparr>"
  assume "resolve_ckpt_path env config p files0 = None
            \<or> (\<exists>path. resolve_ckpt_path env config p files0 = Some path
                   \<and> (path = [] \<or> files0 path = None))"
  then have "preload_checkpoint env config ?st0 = Inr (0, ?st0)"
    using req preload_not_found [of config p env ?st0] by simp
  then show "train_model env config files0 =
                run_epochs env config (py_range 0 (num_epochs config)) ?st0"
    by (simp add: train_model_def)
qed

lemma cfg_demo_fields:
  "preload cfg_demo = Some ''latest''" "num_epochs cfg_demo = 5"
  by (simp_all add: cfg_demo_def)

lemma resolve_demo:
  "resolve_ckpt_path env_demo cfg_demo ''latest'' files_demo
     = Some ''opus_books_weights/tmodel_03.pt''"
  "resolve_ckpt_path env_demo cfg_demo ''latest'' files_no_step
     = Some ''opus_books_weights/tmodel_03.pt''"
  "resolve_ckpt_path env_demo cfg_demo ''latest'' Map.empty = None"
  by (simp_all add: resolve_ckpt_path_def env_demo_def files_demo_def files_no_step_def)

theorem resume_from_checkpoint_demo:
  "train_model env_demo cfg_demo files_demo =
     run_epochs env_demo cfg_demo (py_range 4 5)
       \<lparr> cur_global_step = 120, model = 7, optimizer = 9, files = files_demo \<rparr>
   \<and> py_range 4 5 = [4]
   \<and> train_model env_demo cfg_demo Map.empty =
     run_epochs env_demo cfg_demo (py_range 0 5)
       \<lparr> cur_global_step = 0, model = 0, optimizer = 0, files = Map.empty \<rparr>"
proof -
  have req: "preload cfg_demo = Some ''latest''" "''latest'' \<noteq> []"
    by (simp_all add: cfg_demo_fields)
  have found: "resolve_ckpt_path env_demo cfg_demo ''latest'' files_demo
        = Some ''opus_books_weights/tmodel_03.pt''
      \<and> ''opus_books_weights/tmodel_03.pt'' \<noteq> []
      \<and> files_demo ''opus_books_weights/tmodel_03.pt''
        = Some \<lparr> epoch = Some 3, global_step = Some 120,
                 model_state_dict = Some 7, optimizer_state_dict = Some 9 \<rparr>
      \<and> epoch \<lparr> epoch = Some 3, global_step = Some 120,
                 model_state_dict = Some (7::nat), optimizer_state_dict = Some (9::nat) \<rparr>
          = Some 3
      \<and> global_step \<lparr> epoch = Some 3, global_step = Some 120,
                 model_state_dict = Some (7::nat), optimizer_state_dict = Some (9::nat) \<rparr>
          = Some 120
      \<and> model_state_dict \<lparr> epoch = Some 3, global_step = Some 120,
                 model_state_dict = Some (7::nat), optimizer_state_dict = Some (9::nat) \<rparr>
          = Some 7
      \<and> optimizer_state_dict \<lparr> epoch = Some 3, global_step = Some 120,
                 model_state_dict = Some (7::nat), optimizer_state_dict = Some (9::nat) \<rparr>
          = Some 9"
    by (simp add: resolve_demo) (simp add: files_demo_def)
  have a: "train_model env_demo cfg_demo files_demo =
     run_epochs env_demo cfg_demo (py_range (3 + 1) (num_epochs cfg_demo))
       \<lparr> cur_global_step = 120, model = 7, optimizer = 9, files = files_demo \<rparr>"
    using resume_from_checkpoint [OF req, of env_demo files_demo] found by blast
  have b: "train_model env_demo cfg_demo Map.empty =
     run_epochs env_demo cfg_demo (py_range 0 (num_epochs cfg_demo))
       \<lparr> cur_global_step = 0, model = initial_model env_demo,
         optimizer = initial_optimizer env_demo, files = Map.empty \<rparr>"
    using resume_from_checkpoint [OF req, of env_demo Map.empty] resolve_demo(3) by blast
  show ?thesis
    using a b by (simp add: cfg_demo_fields py_range_def upto_rec1) (simp add: env_demo_def)
qed

text \<open>
  C10. With a preload request whose path holds a checkpoint that has an epoch entry
  \<open>e\<close> and the two parameter entries but no step entry, the run is the loop over the
  epochs \<open>e + 1, \<dots>\<close> started with the step counter 0 and the stored parameters; the
  missing entry raises nothing.
\<close>

theorem resume_without_global_step:
  assumes "preload config = Some p" "p \<noteq> []"
    and "resolve_ckpt_path env config p files0 = Some path" "path \<noteq> []"
    and "files0 path = Some state"
    and "epoch state = Some e" "global_step state = None"
    and "model_state_dict state = Some m" "optimizer_state_dict state = Some opt"
  shows "train_model env config files0 =
           run_epochs env config (py_range (e + 1) (num_epochs config))
             \<lparr> cur_global_step = 0, model = m, optimizer = opt, files = files0 \<rparr>"
proof -
  let ?st0 = "\<lparr> cur_global_step = 0, model = initial_model env,
                  optimizer = initial_optimizer env, files = files0 \<rparr>"
  have "preload_checkpoint env config ?st0 = load_checkpoint state ?st0"
    using assms preload_found [of config p env ?st0 path state] by simp
  also have "\<dots> = Inr (e + 1, ?st0\<lparr> cur_global_step := 0, model := m, optimizer := opt \<rparr>)"
    using assms by (simp add: load_checkpoint_complete)
  finally show ?thesis
    by (simp add: train_model_def)
qed

theorem resume_without_global_step_demo:
  "train_model env_demo cfg_demo files_no_step =
     run_epochs env_demo cfg_demo (py_range 4 5)
       \<lparr> cur_global_step = 0, model = 7, optimizer = 9, files = files_no_step \<rparr>"
proof -
  have req: "preload cfg_demo = Some ''latest''" "''latest'' \<noteq> []"
    by (simp_all add: cfg_demo_fields)
  have stored: "files_no_step ''opus_books_weights/tmodel_03.pt''
        = Some \<lparr> epoch = Some 3, global_step = None,
                 model_state_dict = Some 7, optimizer_state_dict = Some 9 \<rparr>"
    by (simp add: files_no_step_def)
  have ne: "''opus_books_weights/tmodel_03.pt'' \<noteq> []" by simp
  show ?thesis
    using resume_without_global_step [OF req resolve_demo(2) ne stored, of 3 7 9]
    by (simp add: cfg_demo_fields)
qed

section \<open>Properties of the loss\<close>

lemma chunks_concat:
  assumes "0 < v" "\<forall>r \<in> set rows. length r = v"
  shows "chunks v (concat rows) = rows"
  using assms
proof (induction rows)
  case Nil
  then show ?case by (simp add: chunks.simps)
next
  case (Cons r rows)
  then have "r \<noteq> []" by auto
  with Cons show ?case
    by (subst chunks.simps) simp
qed

lemma length_concat_rows:
  assumes "\<forall>r \<in> set rows. length r = v"
  shows "length (concat rows) = v * length rows"
  using assms by (induction rows) simp_all

lemma view_rows_width:
  assumes "0 < v" "\<forall>b \<in> set logits. \<forall>x \<in> set b. length x = v"
  shows "view_rows v logits = Inr (concat logits)"
proof -
  have w: "\<forall>r \<in> set (concat logits). length r = v"
    using assms(2) by auto
  have "length (concat (concat logits)) mod v = 0"
    using length_concat_rows [OF w] by simp
  then show ?thesis
    using assms(1) w by (simp add: view_rows_def chunks_concat)
qed

lemma masked_sum_filter:
  "sum_list (map (\<lambda>(x, y). if y = pad then 0 else f x y) rows)
     = sum_list (map (\<lambda>(x, y). f x y) (filter (\<lambda>(x, y). y \<noteq> pad) rows))"
  by (induction rows) (auto split: prod.splits)

lemma count_filter:
  "length xs = length ys \<Longrightarrow>
     length (filter Not (map (\<lambda>y. y = pad) ys)) = length (filter (\<lambda>(x, y). y \<noteq> pad) (zip xs ys))"
  by (induction xs ys rule: list_induct2) simp_all

lemma nll_terms_zip:
  "length xs = length ys \<Longrightarrow>
     map2 (\<lambda>lp y. if y = pad then 0 else - (lp ! nat y)) (map log_softmax xs) ys
       = map (\<lambda>(x, y). if y = pad then 0 else - (log_softmax x ! nat y)) (zip xs ys)"
  by (induction xs ys rule: list_induct2) simp_all

lemma smooth_terms_zip:
  "length xs = length ys \<Longrightarrow>
     map2 (\<lambda>lp m. if m then 0 else - sum_list lp) (map log_softmax xs) (map (\<lambda>y. y = pad) ys)
       = map (\<lambda>(x, y). if y = pad then 0 else - sum_list (log_softmax x)) (zip xs ys)"
  by (induction xs ys rule: list_induct2) simp_all

lemma length_log_softmax: "length (log_softmax x) = length x"
  by (simp add: log_softmax_def Let_def)

lemma cross_entropy_smoothed:
  assumes len: "length x = c" and y: "0 \<le> y" "y < int c"
  shows "cross_entropy (smoothed_target eps c y) x
         = (1 - eps) * (- (log_softmax x ! nat y)) + (eps / real c) * (- sum_list (log_softmax x))"
proof -
  let ?lp = "log_softmax x"
  have l: "length ?lp = c" using len by (simp add: length_log_softmax)
  have "map2 (\<lambda>qk lk. qk * lk) (smoothed_target eps c y) ?lp
        = map (\<lambda>k. ((1 - eps) * (if int k = y then 1 else 0) + eps / real c) * (?lp ! k)) [0..<c]"
    by (rule nth_equalityI) (simp_all add: smoothed_target_def l)
  also have "sum_list \<dots> = (\<Sum>k = 0..<c. ((1 - eps) * (if int k = y then 1 else 0) + eps / real c) * (?lp ! k))"
    by (simp add: interv_sum_list_conv_sum_set_nat)
  also have "\<dots> = (\<Sum>k = 0..<c. (1 - eps) * (if k = nat y then ?lp ! k else 0)
                                    + (eps / real c) * (?lp ! k))"
  proof (rule sum.cong)
    fix k
    show "((1 - eps) * (if int k = y then 1 else 0) + eps / real c) * (?lp ! k)
            = (1 - eps) * (if k = nat y then ?lp ! k else 0) + (eps / real c) * (?lp ! k)"
      using y by (auto simp: algebra_simps)
  qed simp
  also have "\<dots> = (1 - eps) * (\<Sum>k = 0..<c. (if k = nat y then ?lp ! k else 0))
                  + (eps / real c) * (\<Sum>k = 0..<c. ?lp ! k)"
    by (simp only: sum.distrib sum_distrib_left)
  also have "(\<Sum>k = 0..<c. (if k = nat y then ?lp ! k else 0)) = ?lp ! nat y"
  proof -
    have "nat y < c" using y by linarith
    then show ?thesis by (simp add: sum.delta)
  qed
  also have "(\<Sum>k = 0..<c. ?lp ! k) = sum_list ?lp"
    using l by (simp add: sum_list_sum_nth atLeast0LessThan)
  finally show ?thesis
    by (simp add: cross_entropy_def)
qed

lemma cross_entropy_forward_eq:
  assumes len: "length xs = length ys"
    and range: "\<forall>y \<in> set ys. y \<noteq> ignore_index self \<longrightarrow> 0 \<le> y \<and> y < int c"
  shows "cross_entropy_forward self c xs ys =
     (let kept = filter (\<lambda>(x, y). y \<noteq> ignore_index self) (zip xs ys)
      in if kept = [] then Inr None
         else Inr (Some ((1 - label_smoothing self)
                          * (sum_list (map (\<lambda>(x, y). - (log_softmax x ! nat y)) kept)
                             / real (length kept))
                        + (sum_list (map (\<lambda>(x, y). - sum_list (log_softmax x)) kept)
                             / real (length kept))
                          * (label_smoothing self / real c))))"
proof -
  have ok: "\<not> list_ex (\<lambda>y. y \<noteq> ignore_index self \<and> (y < 0 \<or> int c \<le> y)) ys"
    using range by (auto simp: list_ex_iff)
  have cnt: "length (filter Not (map (\<lambda>y. y = ignore_index self) ys))
        = length (filter (\<lambda>(x, y). y \<noteq> ignore_index self) (zip xs ys))"
    using len by (rule count_filter)
  have nll: "sum_list (map2 (\<lambda>lp y. if y = ignore_index self then 0 else - (lp ! nat y))
                 (map log_softmax xs) ys)
        = sum_list (map (\<lambda>(x, y). - (log_softmax x ! nat y))
                     (filter (\<lambda>(x, y). y \<noteq> ignore_index self) (zip xs ys)))"
    using nll_terms_zip [OF len, of "ignore_index self"]
      masked_sum_filter [of "ignore_index self" "\<lambda>x y. - (log_softmax x ! nat y)" "zip xs ys"]
    by simp
  have smooth: "sum_list (map2 (\<lambda>lp m. if m then 0 else - sum_list lp)
                 (map log_softmax xs) (map (\<lambda>y. y = ignore_index self) ys))
        = sum_list (map (\<lambda>(x, y). - sum_list (log_softmax x))
                     (filter (\<lambda>(x, y). y \<noteq> ignore_index self) (zip xs ys)))"
    using smooth_terms_zip [OF len, of "ignore_index self"]
      masked_sum_filter [of "ignore_index self" "\<lambda>x y. - sum_list (log_softmax x)" "zip xs ys"]
    by simp
  show ?thesis
    unfolding cross_entropy_forward_def Let_def
    by (simp only: len ok nll smooth cnt if_False simp_thms length_0_conv)
qed

lemma sum_list_mix:
  "sum_list (map (\<lambda>p. a * f p + b * g p) ps)
     = a * sum_list (map f ps) + b * sum_list (map g ps)"
  for a b :: real
  by (induction ps) (simp_all add: algebra_simps)

lemma spec_loss_eq:
  assumes width: "\<forall>(x, y) \<in> set positions. length x = c"
    and range: "\<forall>(x, y) \<in> set positions. y \<noteq> pad \<longrightarrow> 0 \<le> y \<and> y < int c"
  shows "spec_loss pad c positions =
     (let kept = filter (\<lambda>(x, y). y \<noteq> pad) positions
      in if kept = [] then None
         else Some ((1 - 1 / 10)
                     * (sum_list (map (\<lambda>(x, y). - (log_softmax x ! nat y)) kept)
                        / real (length kept))
                   + (sum_list (map (\<lambda>(x, y). - sum_list (log_softmax x)) kept)
                        / real (length kept))
                     * ((1 / 10) / real c)))"
proof -
  let ?kept = "filter (\<lambda>(x, y). y \<noteq> pad) positions"
  have each: "cross_entropy (smoothed_target (1 / 10) c (snd p)) (fst p)
        = (1 - 1 / 10) * (- (log_softmax (fst p) ! nat (snd p)))
          + ((1 / 10) / real c) * (- sum_list (log_softmax (fst p)))"
    if "p \<in> set ?kept" for p
  proof -
    from that have "length (fst p) = c" "0 \<le> snd p" "snd p < int c"
      using width range by (auto split: prod.splits)
    then show ?thesis by (rule cross_entropy_smoothed)
  qed
  have "sum_list (map (\<lambda>(x, y). cross_entropy (smoothed_target (1 / 10) c y) x) ?kept)
        = sum_list (map (\<lambda>p. (1 - 1 / 10) * (- (log_softmax (fst p) ! nat (snd p)))
                          + ((1 / 10) / real c) * (- sum_list (log_softmax (fst p)))) ?kept)"
    by (rule arg_cong [where f = sum_list], rule map_cong)
       (auto simp: each case_prod_beta simp del: set_filter)
  also have "\<dots> = (1 - 1 / 10) * sum_list (map (\<lambda>p. - (log_softmax (fst p) ! nat (snd p))) ?kept)
               + ((1 / 10) / real c) * sum_list (map (\<lambda>p. - sum_list (log_softmax (fst p))) ?kept)"
    by (rule sum_list_mix)
  finally have s: "sum_list (map (\<lambda>(x, y). cross_entropy (smoothed_target (1 / 10) c y) x) ?kept)
        = (1 - 1 / 10) * sum_list (map (\<lambda>(x, y). - (log_softmax x ! nat y)) ?kept)
               + ((1 / 10) / real c) * sum_list (map (\<lambda>(x, y). - sum_list (log_softmax x)) ?kept)"
    by (simp add: case_prod_unfold)
  show ?thesis
    unfolding spec_loss_def Let_def s
    by (simp add: add_divide_distrib)
qed

text \<open>
  C8. With the loss function built on lines 116 to 119 and applied as on lines 136 to
  139 to logits of width \<open>v\<close>, the vocabulary size, and to labels of the same batch
  shape whose entries other than the padding id are classes: the loss is the
  cross-entropy over the flattened positions, averaged over the positions whose label
  is not the padding id of the target tokenizer, the others being left out of both the
  sum and the count, with the target distribution of every position that is kept
  smoothed by the factor 1/10.
\<close>

theorem loss_ignores_pad_and_smooths:
  assumes pad: "token_to_id tokenizer_tgt0 ''[PAD]'' = Some pad"
    and v: "0 < v"
    and width: "\<forall>b \<in> set logits. \<forall>x \<in> set b. length x = v"
    and shape: "map length logits = map length labels"
    and range: "\<forall>y \<in> set (concat labels). y \<noteq> pad \<longrightarrow> 0 \<le> y \<and> y < int v"
  shows "\<exists>loss_fn. loss_fn_init tokenizer_tgt0 = Inr loss_fn
           \<and> ignore_index loss_fn = pad \<and> label_smoothing loss_fn = 1 / 10
           \<and> batch_loss loss_fn v logits labels
               = Inr (spec_loss pad v (zip (concat logits) (concat labels)))"
proof -
  let ?fn = "\<lparr> ignore_index = pad, label_smoothing = 1 / 10 \<rparr>"
  let ?xs = "concat logits" and ?ys = "concat labels"
  have init: "loss_fn_init tokenizer_tgt0 = Inr ?fn"
    using pad by (simp add: loss_fn_init_def)
  have view: "view_rows v logits = Inr ?xs"
    using v width by (rule view_rows_width)
  have len: "length ?xs = length ?ys"
    using shape by (simp add: length_concat)
  have r: "\<forall>y \<in> set ?ys. y \<noteq> ignore_index ?fn \<longrightarrow> 0 \<le> y \<and> y < int v"
    using range by simp
  have w: "\<forall>(x, y) \<in> set (zip ?xs ?ys). length x = v"
    using width by (auto dest!: set_zip_leftD)
  have r': "\<forall>(x, y) \<in> set (zip ?xs ?ys). y \<noteq> pad \<longrightarrow> 0 \<le> y \<and> y < int v"
    using range by (auto dest!: set_zip_rightD)
  have "batch_loss ?fn v logits labels = cross_entropy_forward ?fn v ?xs ?ys"
    by (simp add: batch_loss_def view)
  also have "\<dots> = Inr (spec_loss pad v (zip ?xs ?ys))"
    unfolding cross_entropy_forward_eq [OF len r] spec_loss_eq [OF w r']
    by (simp add: Let_def)
  finally show ?thesis
    using init by simp
qed

theorem loss_two_positions:
  "loss_fn_init tok_it = Inr \<lparr> ignore_index = 1, label_smoothing = 1 / 10 \<rparr>
   \<and> batch_loss \<lparr> ignore_index = 1, label_smoothing = 1 / 10 \<rparr> 2 [[[0, 0], [3, 5]]] [[0, 1]]
       = Inr (Some (ln 2))"
proof -
  have pad: "token_to_id tok_it ''[PAD]'' = Some 1"
    by (simp add: tok_it_def table_tokenizer_def special_ids_def)
  have v: "(0::nat) < 2" by simp
  have width: "\<forall>b \<in> set [[[0, 0], [3, 5 :: real]]]. \<forall>x \<in> set b. length x = 2"
    by simp
  have shape: "map length [[[0, 0], [3, 5 :: real]]] = map length [[0, 1 :: int]]"
    by simp
  have range: "\<forall>y \<in> set (concat [[0, 1 :: int]]). y \<noteq> 1 \<longrightarrow> 0 \<le> y \<and> y < int 2"
    by simp
  have ln2: "spec_loss 1 2 (zip (concat [[[0, 0], [3, 5]]]) (concat [[0, 1]])) = Some (ln 2)"
    by (simp add: spec_loss_def cross_entropy_def smoothed_target_def log_softmax_def upt_rec
        algebra_simps)
  from loss_ignores_pad_and_smooths [OF pad v width shape range]
  obtain loss_fn where
    f: "loss_fn_init tok_it = Inr loss_fn" "ignore_index loss_fn = 1"
      "label_smoothing loss_fn = 1 / 10"
      "batch_loss loss_fn 2 [[[0, 0], [3, 5]]] [[0, 1]]
         = Inr (spec_loss 1 2 (zip (concat [[[0, 0], [3, 5]]]) (concat [[0, 1]])))"
    by blast
  have "loss_fn = \<lparr> ignore_index = 1, label_smoothing = 1 / 10 \<rparr>"
    using f(2,3) by simp
  then show ?thesis
    using f(1,4) ln2 by simp
qed

end
